theory Spec2Isabelle
  imports Complex_Main
begin

section \<open>fliptest: the lifecycle of an egress test, from \<open>src/fliptest.go\<close>\<close>

text \<open>
  The package creates a Cloudformation stack holding a VPC lambda, calls the lambda
  with a list of URLs, checks the results and deletes the stack. Everything the
  package does to the outside (Cloudformation, Lambda, the file system, the clock,
  the random generator, the JSON codec) is a field of the record \<open>env\<close>; every
  call to the outside is appended to a history of events, and each outside
  function sees the history so far, so that its answer may depend on everything
  that happened before. A Go \<open>error\<close> is its message; \<open>nil\<close> is \<open>None\<close>.
\<close>

subsection \<open>Strings and formatting\<close>

text \<open>\<open>strings.HasPrefix\<close> and \<open>strings.Contains\<close> of the Go library.\<close>

fun HasPrefix :: "string \<Rightarrow> string \<Rightarrow> bool" where
  "HasPrefix s [] = True"
| "HasPrefix [] (p # ps) = False"
| "HasPrefix (c # cs) (p # ps) = (c = p \<and> HasPrefix cs ps)"

fun Contains :: "string \<Rightarrow> string \<Rightarrow> bool" where
  "Contains [] substr = HasPrefix [] substr"
| "Contains (c # cs) substr = (HasPrefix (c # cs) substr \<or> Contains cs substr)"

text \<open>The verb \<open>%d\<close> of \<open>fmt.Sprintf\<close> on a natural number and on an integer,
  and \<open>%08d\<close> (zero padding to eight digits) on a natural number.\<close>

definition digit :: "nat \<Rightarrow> char" where
  "digit n = ''0123456789'' ! (n mod 10)"

fun decimal :: "nat \<Rightarrow> string" where
  "decimal n = (if n < 10 then [digit n] else decimal (n div 10) @ [digit n])"

declare decimal.simps [simp del]

definition Sprintf_d :: "int \<Rightarrow> string" where
  "Sprintf_d i = (if i < 0 then CHR ''-'' # decimal (nat (- i)) else decimal (nat i))"

definition Sprintf_08d :: "nat \<Rightarrow> string" where
  "Sprintf_08d n = replicate (8 - length (decimal n)) CHR ''0'' @ decimal n"

subsection \<open>Data\<close>

text \<open>An AWS session is an opaque handle.\<close>

datatype session = AwsSession nat

record TestUrl =
  tu_Name :: string
  tu_Url :: string

text \<open>
  \<open>ElapsedTimeS\<close> is a \<open>float64\<close> decoded from JSON, so it is a finite value;
  the code only compares it with the constant \<open>6.0\<close>, and on finite values
  that comparison is the comparison of the reals they denote.
\<close>

record TestResult =
  Name :: string
  ElapsedTimeS :: real
  Message :: string
  Success :: bool
  Url :: string
  ResponseCode :: int

record lambdaEvent =
  RequestType :: string
  ev_TestUrls :: "TestUrl list"

record FlipTesterInput =
  SubnetId :: string
  VpcId :: string
  StackPrefix :: string
  StackTemplateFilename :: string
  StackName :: string
  TestUrls :: "TestUrl list"
  RetainStack :: bool
  Session :: "session option"
  Context :: string
  InitialSleepTimeSeconds :: int
  PostEventSleepTimeSeconds :: int

text \<open>Fields of \<open>FlipTester\<close> whose names are taken already carry the prefix \<open>ft_\<close>.\<close>

record FlipTester =
  subnetId :: string
  vpcId :: string
  stackPrefix :: string
  stackTemplateFilename :: string
  ft_TestUrls :: "TestUrl list"
  TestResults :: "TestResult list"
  testEvent :: lambdaEvent
  Passed :: bool
  sess :: "session option"
  ft_RetainStack :: bool
  stackCreated :: bool
  ft_StackName :: string
  functionName :: string
  ft_log :: "string list"
  ft_context :: string
  initialSleepTimeSeconds :: int
  postEventSleepTimeSeconds :: int

text \<open>The parts of \<open>cloudformation.Stack\<close> and \<open>cloudformation.CreateStackInput\<close>
  the package reads and writes.\<close>

record Stack =
  st_StackName :: string
  StackStatus :: string
  Outputs :: "(string \<times> string) list"

record CreateStackInput =
  TimeoutInMinutes :: int
  cs_StackName :: string
  TemplateBody :: string
  Capabilities :: "string list"
  Parameters :: "(string \<times> string) list"

text \<open>
  The events of a history. The first seven are the calls to the outside. The last
  three are markers with no counterpart in the source: the entry into
  \<open>callLamda\<close>, its return with the error it returns, and the outcome of
  \<open>checkResults\<close> inside it (\<open>True\<close> when it returned no error). They let
  a statement speak about the attempts of a run.
\<close>

datatype event =
    Ev_session_New
  | Ev_ReadFile string
  | Ev_Intn
  | Ev_CreateStack CreateStackInput
  | Ev_DescribeStacks string
  | Ev_DeleteStack string
  | Ev_Invoke string string
  | Ev_Sleep int
  | Enter_callLamda
  | Leave_callLamda "string option"
  | Checked bool

text \<open>
  The outside. \<open>time_Now k\<close> is the formatted time of the log message written
  when the log holds \<open>k\<close> messages. \<open>json_Unmarshal payload old\<close> gives the error and
  the value left in \<open>ft.TestResults\<close>, which held \<open>old\<close>. \<open>defaultTemplate\<close>
  is a constant of a file of the package that is not among the sources.
\<close>

record env =
  time_Now :: "nat \<Rightarrow> string"
  ioutil_ReadFile :: "event list \<Rightarrow> string \<Rightarrow> string + string"
  rand_Intn :: "event list \<Rightarrow> nat"
  cf_CreateStack :: "event list \<Rightarrow> CreateStackInput \<Rightarrow> string + string"
  cf_DescribeStacks :: "event list \<Rightarrow> string \<Rightarrow> string + Stack list"
  cf_DeleteStack :: "event list \<Rightarrow> string \<Rightarrow> string option"
  lambda_Invoke :: "event list \<Rightarrow> string \<Rightarrow> string \<Rightarrow> string + string"
  json_Marshal :: "lambdaEvent \<Rightarrow> string + string"
  json_Unmarshal :: "string \<Rightarrow> TestResult list \<Rightarrow> string option \<times> TestResult list"
  defaultTemplate :: string

text \<open>A \<open>FlipTester\<close> together with the history of the run.\<close>

record state =
  ftr :: FlipTester
  hist :: "event list"

datatype 'a outcome = Panic | Return 'a

definition emit :: "event \<Rightarrow> state \<Rightarrow> state" where
  "emit ev s = s\<lparr>hist := hist s @ [ev]\<rparr>"

definition sleep :: "int \<Rightarrow> state \<Rightarrow> state" where
  "sleep seconds s = emit (Ev_Sleep seconds) s"

subsection \<open>The log\<close>

text \<open>\<open>logMessage\<close>: the message with the time, the context and the stack name,
  appended to the log. \<open>GetLog\<close> joins the log with newlines.\<close>

definition logMessage :: "env \<Rightarrow> string \<Rightarrow> FlipTester \<Rightarrow> FlipTester" where
  "logMessage e msg ft =
     (let tString = time_Now e (length (ft_log ft));
          rMsg = tString @ '': Context: '' @ [CHR 0x27] @ ft_context ft
                 @ [CHR 0x27] @ '', StackName: '' @ [CHR 0x27] @ ft_StackName ft
                 @ [CHR 0x27] @ '', Message: '' @ [CHR 0x27] @ msg @ [CHR 0x27]
      in ft\<lparr>ft_log := ft_log ft @ [rMsg]\<rparr>)"

definition slog :: "env \<Rightarrow> string \<Rightarrow> state \<Rightarrow> state" where
  "slog e msg s = s\<lparr>ftr := logMessage e msg (ftr s)\<rparr>"

fun Join :: "string list \<Rightarrow> string \<Rightarrow> string" where
  "Join [] sep = []"
| "Join [x] sep = x"
| "Join (x # y # ys) sep = x @ sep @ Join (y # ys) sep"

definition GetLog :: "FlipTester \<Rightarrow> string" where
  "GetLog ft = Join (ft_log ft) [CHR 0x0A]"

subsection \<open>The validator\<close>

definition maxTime :: real where
  "maxTime = 6"

text \<open>\<open>checkResults\<close> of \<open>src/fliptest.go\<close>: the pair \<open>(ok, err)\<close> and the
  tester with its log.\<close>

fun checkResults ::
  "env \<Rightarrow> TestResult list \<Rightarrow> FlipTester \<Rightarrow> (bool \<times> string option) \<times> FlipTester" where
  "checkResults e [] ft = ((True, None), ft)"
| "checkResults e (result # results) ft =
     (if \<not> Success result then
        (let msg = ''test failed: '' @ Url result
         in ((False, Some msg), logMessage e msg ft))
      else if ElapsedTimeS result > maxTime then
        (let msg = ''test took too long: '' @ Url result
         in ((False, Some msg), logMessage e msg ft))
      else checkResults e results ft)"

text \<open>
  The other revision of \<open>checkResults\<close>, the one carried in
  \<open>src/examples_test.go\<close> (lines 791 to 810): it returns the error alone and
  rejects the empty list first.
\<close>

fun checkResults_loop ::
  "env \<Rightarrow> TestResult list \<Rightarrow> FlipTester \<Rightarrow> string option \<times> FlipTester" where
  "checkResults_loop e [] ft = (None, ft)"
| "checkResults_loop e (result # results) ft =
     (if \<not> Success result then
        (let msg = ''test failed: '' @ Url result
         in (Some msg, logMessage e msg ft))
      else if ElapsedTimeS result > maxTime then
        (let msg = ''test took too long: '' @ Url result
         in (Some msg, logMessage e msg ft))
      else checkResults_loop e results ft)"

definition checkResults_alt ::
  "env \<Rightarrow> TestResult list \<Rightarrow> FlipTester \<Rightarrow> string option \<times> FlipTester" where
  "checkResults_alt e results ft =
     (if length results < 1 then
        (let msg = ''tests failed; no test results to check''
         in (Some msg, logMessage e msg ft))
      else checkResults_loop e results ft)"

subsection \<open>Describing, invoking, deleting\<close>

definition getStackInfo :: "env \<Rightarrow> state \<Rightarrow> string option \<times> state" where
  "getStackInfo e s =
     (let name = ft_StackName (ftr s);
          s1 = emit (Ev_DescribeStacks name) s
      in case cf_DescribeStacks e (hist s) name of
           Inl err \<Rightarrow> (Some err, s1)
         | Inr [] \<Rightarrow> (Some ''could not find stack with provided StackName'', s1)
         | Inr (stack # _) \<Rightarrow>
             (case Outputs stack of
                [] \<Rightarrow> (Some ''no outputs detected on provided StackName'', s1)
              | (OutputKey, OutputValue) # _ \<Rightarrow>
                  if OutputKey = ''FunctionName''
                  then (None, s1\<lparr>ftr := (ftr s1)\<lparr>functionName := OutputValue\<rparr>\<rparr>)
                  else (Some ''error getting FunctionName output from existing stack'', s1)))"

text \<open>The body of \<open>callLamda\<close>. The message \<open>tests passed\<close> is logged whatever
  \<open>checkResults\<close> returned, as in the source.\<close>

definition callLamda_body :: "env \<Rightarrow> state \<Rightarrow> string option \<times> state" where
  "callLamda_body e s =
     (let s1 = slog e ''inside callLambda'' s in
      case getStackInfo e s1 of
        (Some err, s2) \<Rightarrow> (Some err, s2)
      | (None, s2) \<Rightarrow>
          (let s3 = slog e ''preparing test event'' s2 in
           case json_Marshal e (testEvent (ftr s3)) of
             Inl err \<Rightarrow> (Some err, s3)
           | Inr payload \<Rightarrow>
               (let s4 = slog e (''sleeping '' @ Sprintf_d (postEventSleepTimeSeconds (ftr s3))
                                 @ ''s before invoking lambda'') s3;
                    s5 = sleep (postEventSleepTimeSeconds (ftr s4)) s4;
                    s6 = slog e ''invoking lambda'' s5;
                    s7 = emit (Ev_Invoke (functionName (ftr s6)) payload) s6
                in case lambda_Invoke e (hist s6) (functionName (ftr s6)) payload of
                     Inl err \<Rightarrow> (Some err, s7)
                   | Inr response \<Rightarrow>
                       (let (uerr, decoded) = json_Unmarshal e response (TestResults (ftr s7));
                            s8 = s7\<lparr>ftr := (ftr s7)\<lparr>TestResults := decoded\<rparr>\<rparr>
                        in case uerr of
                             Some err \<Rightarrow> (Some err, s8)
                           | None \<Rightarrow>
                               (let s9 = slog e ''checking results for timing'' s8;
                                    ((ok, cerr), ft10) = checkResults e (TestResults (ftr s9)) (ftr s9);
                                    s10 = emit (Checked (cerr = None)) (s9\<lparr>ftr := ft10\<rparr>);
                                    err = (case cerr of
                                             Some _ \<Rightarrow> Some ''tests failed or took too long''
                                           | None \<Rightarrow> None);
                                    s11 = slog e ''tests passed'' s10
                                in (err, s11))))))"

text \<open>\<open>callLamda\<close>: the body between its two markers.\<close>

definition callLamda :: "env \<Rightarrow> state \<Rightarrow> string option \<times> state" where
  "callLamda e s =
     (let (err, s') = callLamda_body e (emit Enter_callLamda s)
      in (err, emit (Leave_callLamda err) s'))"

definition DeleteStack :: "env \<Rightarrow> state \<Rightarrow> string option \<times> state" where
  "DeleteStack e s =
     (let name = ft_StackName (ftr s)
      in (cf_DeleteStack e (hist s) name, emit (Ev_DeleteStack name) s))"

subsection \<open>Creating the stack\<close>

definition getTemplateBody :: "env \<Rightarrow> state \<Rightarrow> (string + string) \<times> state" where
  "getTemplateBody e s =
     (if stackTemplateFilename (ftr s) = [] then (Inr (defaultTemplate e), s)
      else (ioutil_ReadFile e (hist s) (stackTemplateFilename (ftr s)),
            emit (Ev_ReadFile (stackTemplateFilename (ftr s))) s))"

text \<open>The statuses at which the \<open>switch\<close> of \<open>watchStack\<close> returns, in its order.\<close>

definition returns_at :: "string \<Rightarrow> bool" where
  "returns_at status =
     (status = ''CREATE_COMPLETE'' \<or> status = ''ROLLBACK_IN_PROGRESS''
      \<or> status = ''ROLLBACK_COMPLETE'' \<or> status = ''DELETE_IN_PROGRESS''
      \<or> status = ''DELETE_COMPLETE'' \<or> status = ''CREATE_FAILED''
      \<or> status = ''DELETE_FAILED'')"

text \<open>
  The loop of \<open>watchStack\<close>, entered with the value of \<open>count\<close> and of the
  result \<open>stack\<close>. The \<open>err\<close> declared inside the loop by
  \<open>result, err := svc.DescribeStacks(&input)\<close> is another variable than the
  result \<open>err\<close>: the \<open>return stack, err\<close> after the loop returns the result
  \<open>err\<close>, which nothing has assigned, and the returns of the \<open>switch\<close> return
  the inner one, which is \<open>nil\<close> there. \<open>count\<close> is an \<open>int\<close> of 64 bits that
  no run can overflow, at ten seconds a round.
\<close>

function watchStack_loop ::
  "env \<Rightarrow> string \<Rightarrow> int \<Rightarrow> int \<Rightarrow> Stack option \<Rightarrow> state
     \<Rightarrow> (Stack option \<times> string option) \<times> state" where
  "watchStack_loop e stackID maxtries count stack s =
     (if count + 1 > maxtries then ((stack, None), s)
      else
        (let s1 = slog e ''waiting on stack'' s;
             s2 = emit (Ev_DescribeStacks stackID) s1
         in case cf_DescribeStacks e (hist s1) stackID of
              Inl err \<Rightarrow> ((stack, Some err), s2)
            | Inr [] \<Rightarrow> ((stack, Some ''not enough stacks in describe''), s2)
            | Inr (stack' # _) \<Rightarrow>
                if returns_at (StackStatus stack') then ((Some stack', None), s2)
                else watchStack_loop e stackID maxtries (count + 1) (Some stack') (sleep 10 s2)))"
  by pat_completeness auto
termination
  by (relation "measure (\<lambda>(e, stackID, maxtries, count, stack, s). nat (maxtries - count))") auto

declare watchStack_loop.simps [simp del]

definition watchStack ::
  "env \<Rightarrow> string \<Rightarrow> int \<Rightarrow> state \<Rightarrow> (Stack option \<times> string option) \<times> state" where
  "watchStack e stackID maxtries s = watchStack_loop e stackID maxtries 0 None s"

text \<open>\<open>CreateStack\<close>. \<open>*stack.StackName\<close> on a \<open>nil\<close> stack is a panic.\<close>

definition CreateStack :: "env \<Rightarrow> state \<Rightarrow> string option outcome \<times> state" where
  "CreateStack e s =
     (let s1 = slog e ''loading template file'' s in
      case getTemplateBody e s1 of
        (Inl err, s2) \<Rightarrow> (Return (Some err), s2)
      | (Inr templateBody, s2) \<Rightarrow>
          (let rando = Sprintf_08d (rand_Intn e (hist s2) mod 10000000);
               s3 = emit Ev_Intn s2;
               stackName = stackPrefix (ftr s3) @ rando;
               input = \<lparr>TimeoutInMinutes = 15, cs_StackName = stackName,
                        TemplateBody = templateBody,
                        Capabilities = [''CAPABILITY_IAM'', ''CAPABILITY_NAMED_IAM''],
                        Parameters = [(''SubnetId'', subnetId (ftr s3)),
                                      (''VpcId'', vpcId (ftr s3))]\<rparr>;
               s4 = slog e (''creating stack with name '' @ [CHR 0x27] @ stackName @ [CHR 0x27]) s3;
               s5 = emit (Ev_CreateStack input) s4
           in case cf_CreateStack e (hist s4) input of
                Inl err \<Rightarrow> (Return (Some err), s5)
              | Inr StackId \<Rightarrow>
                  (let s6 = s5\<lparr>ftr := (ftr s5)\<lparr>ft_StackName := StackId\<rparr>\<rparr>;
                       s7 = sleep 5 s6
                   in case watchStack e StackId 90 s7 of
                        ((stack, Some err), s8) \<Rightarrow> (Return (Some err), s8)
                      | ((None, None), s8) \<Rightarrow> (Panic, s8)
                      | ((Some stack, None), s8) \<Rightarrow>
                          (Return None,
                           s8\<lparr>ftr := (ftr s8)\<lparr>ft_StackName := st_StackName stack,
                                               stackCreated := True\<rparr>\<rparr>))))"

subsection \<open>Test\<close>

text \<open>
  The loop \<open>for i := 0; i < 5; i++\<close> of \<open>Test\<close>, by the number of rounds left,
  on the current \<open>err\<close>.
\<close>

fun Test_retry :: "env \<Rightarrow> nat \<Rightarrow> string option \<times> state \<Rightarrow> string option \<times> state" where
  "Test_retry e 0 (err, s) = (err, s)"
| "Test_retry e (Suc n) (err, s) =
     Test_retry e n
       (case err of
          None \<Rightarrow> (None, s)
        | Some m \<Rightarrow>
            if Contains m ''Service''
            then callLamda e
                   (sleep 10 (slog e ''service exception, sleeping and trying lambda again'' s))
            else (Some m, s))"

text \<open>The block \<open>if ft.stackCreated\<close> of \<open>Test\<close>, entered with a \<open>nil\<close> error.
  An error it returns is the one \<open>Test\<close> returns at once.\<close>

definition Test_invoke :: "env \<Rightarrow> state \<Rightarrow> string option \<times> state" where
  "Test_invoke e s =
     (if stackCreated (ftr s) then
        (let s1 = slog e (''sleeping '' @ Sprintf_d (initialSleepTimeSeconds (ftr s))
                          @ '' seconds before calling lambda'') s;
             s2 = sleep (initialSleepTimeSeconds (ftr s1)) s1;
             s3 = slog e ''calling lambda'' s2;
             (err, s4) = callLamda e s3;
             s5 = slog e ''called lambda, processing errors'' s4;
             (err', s6) = Test_retry e 5 (err, s5)
         in case err' of
              Some m \<Rightarrow> (Some m, s6)
            | None \<Rightarrow> (None, s6\<lparr>ftr := (ftr s6)\<lparr>Passed := True\<rparr>\<rparr>))
      else (None, s))"

text \<open>The rest of \<open>Test\<close>, from \<open>if !ft.RetainStack\<close>.\<close>

definition Test_teardown :: "env \<Rightarrow> state \<Rightarrow> string option \<times> state" where
  "Test_teardown e s =
     (let (err, s3) =
            (if \<not> ft_RetainStack (ftr s) then
               (let s1 = slog e ''deleting stack'' s;
                    (err, s2) = DeleteStack e s1
                in (err, if err = None then s2\<lparr>ftr := (ftr s2)\<lparr>stackCreated := False\<rparr>\<rparr> else s2))
             else (None, slog e ''retaining stack'' s))
      in case err of
           Some m \<Rightarrow> (Some m, slog e (''errors: '' @ m) s3)
         | None \<Rightarrow> (None, slog e ''tests complete'' s3))"

definition Test :: "env \<Rightarrow> state \<Rightarrow> string option outcome \<times> state" where
  "Test e s =
     (let s1 = slog e ''starting test'' s in
      case (if \<not> stackCreated (ftr s1)
            then CreateStack e (slog e ''stack doesn't exist yet, creating stack'' s1)
            else (Return None, s1)) of
        (Panic, s2) \<Rightarrow> (Panic, s2)
      | (Return (Some err), s2) \<Rightarrow> (Return (Some err), s2)
      | (Return None, s2) \<Rightarrow>
          (case Test_invoke e s2 of
             (Some err, s3) \<Rightarrow> (Return (Some err), s3)
           | (None, s3) \<Rightarrow>
               (let (err, s4) = Test_teardown e s3 in (Return err, s4))))"

subsection \<open>New\<close>

definition DefaultStackPrefix :: string where
  "DefaultStackPrefix = ''ISS-GR-egress-tester-''"

text \<open>The zero value of \<open>FlipTester\<close>, with the session of the composite literal.\<close>

definition FlipTester_literal :: "session option \<Rightarrow> FlipTester" where
  "FlipTester_literal se =
     \<lparr>subnetId = [], vpcId = [], stackPrefix = [], stackTemplateFilename = [],
      ft_TestUrls = [], TestResults = [],
      testEvent = \<lparr>RequestType = [], ev_TestUrls = []\<rparr>,
      Passed = False, sess = se, ft_RetainStack = False, stackCreated = False,
      ft_StackName = [], functionName = [], ft_log = [], ft_context = [],
      initialSleepTimeSeconds = 0, postEventSleepTimeSeconds = 0\<rparr>"

definition default_TestUrls :: "TestUrl list" where
  "default_TestUrls =
     [\<lparr>tu_Name = ''gopkg.in'', tu_Url = ''https://gopkg.in''\<rparr>,
      \<lparr>tu_Name = ''google'', tu_Url = ''https://www.google.com''\<rparr>,
      \<lparr>tu_Name = ''time'', tu_Url = ''https://www.nist.gov''\<rparr>]"

text \<open>The end of \<open>New\<close>, from \<open>ft.RetainStack = input.RetainStack\<close>.\<close>

definition New_finish :: "FlipTesterInput \<Rightarrow> FlipTester \<Rightarrow> FlipTester" where
  "New_finish input ft =
     (let ft1 = ft\<lparr>ft_RetainStack := RetainStack input\<rparr>
      in if length (TestUrls input) < 1
         then ft1\<lparr>testEvent := \<lparr>RequestType = ''RunAll'', ev_TestUrls = default_TestUrls\<rparr>\<rparr>
         else ft1\<lparr>testEvent := \<lparr>RequestType = ''RunAll'', ev_TestUrls = TestUrls input\<rparr>\<rparr>)"

text \<open>
  \<open>New\<close>: the tester and the error it returns, the input as it leaves it (it
  writes the defaults into the caller's input), and the history. The result
  \<open>fliptester\<close> is \<open>nil\<close> until the last \<open>return\<close>: with no session the
  assignment \<open>fliptester.sess = session.New()\<close> calls \<open>session.New\<close> and then
  stores through the \<open>nil\<close> pointer, which is a panic.
\<close>

definition New ::
  "env \<Rightarrow> FlipTesterInput \<Rightarrow> event list
     \<Rightarrow> (FlipTester option \<times> string option \<times> FlipTesterInput) outcome \<times> event list" where
  "New e input h =
     (if Session input = None then (Panic, h @ [Ev_session_New])
      else
        (let ft = FlipTester_literal (Session input);
             input1 = (if Context input = [] then input\<lparr>Context := ''Default''\<rparr> else input);
             ft1 = ft\<lparr>ft_context := Context input1\<rparr>;
             input2 = (if InitialSleepTimeSeconds input1 = 0
                       then input1\<lparr>InitialSleepTimeSeconds := 40\<rparr> else input1);
             ft2 = ft1\<lparr>initialSleepTimeSeconds := InitialSleepTimeSeconds input2\<rparr>;
             input3 = (if PostEventSleepTimeSeconds input2 = 0
                       then input2\<lparr>PostEventSleepTimeSeconds := 20\<rparr> else input2);
             ft3 = ft2\<lparr>postEventSleepTimeSeconds := PostEventSleepTimeSeconds input3\<rparr>
         in if StackName input3 = [] then
              (if SubnetId input3 = [] then
                 (Return (None,
                    Some ''SubnetId is a required input field if StackName is not supplied'',
                    input3), h)
               else if VpcId input3 = [] then
                 (Return (None,
                    Some ''VpcId is a required input field if StackName is not supplied'',
                    input3), h)
               else
                 (let ft4 = ft3\<lparr>subnetId := SubnetId input3, vpcId := VpcId input3\<rparr>;
                      ft5 = (if StackPrefix input3 = []
                             then ft4\<lparr>stackPrefix := DefaultStackPrefix\<rparr>
                             else ft4\<lparr>stackPrefix := StackPrefix input3\<rparr>);
                      ft6 = ft5\<lparr>stackTemplateFilename := StackTemplateFilename input3\<rparr>
                  in (Return (Some (New_finish input3 ft6), None, input3), h)))
            else
              (let ft4 = logMessage e ''using existing stack'' ft3;
                   ft5 = ft4\<lparr>ft_StackName := StackName input3, stackCreated := True\<rparr>
               in (Return (Some (New_finish input3 ft5), None, input3), h))))"

text \<open>The events a run has added to the history it started from.\<close>

definition added :: "state \<Rightarrow> state \<Rightarrow> event list" where
  "added s s' = drop (length (hist s)) (hist s')"

section \<open>Observations, example environments and proof vocabulary\<close>

text \<open>
  What the statements below observe of a run (the errors of its attempts, the delays
  before its retries, the kinds of its calls), the environments and inputs the
  examples run in, and the predicates the proofs describe a run with.
\<close>

definition transient :: "string option \<Rightarrow> bool" where
  "transient err = (case err of None \<Rightarrow> False | Some m \<Rightarrow> Contains m ''Service'')"

primrec attempts :: "event list \<Rightarrow> string option list" where
  "attempts [] = []"
| "attempts (ev # evs) = (case ev of Leave_callLamda err \<Rightarrow> [err] | _ \<Rightarrow> []) @ attempts evs"

fun retry_delays :: "event list \<Rightarrow> int list" where
  "retry_delays (Leave_callLamda err # Ev_Sleep d # Enter_callLamda # evs) = d # retry_delays evs"
| "retry_delays (ev # evs) = retry_delays evs"
| "retry_delays [] = []"

definition is_DeleteStack :: "event \<Rightarrow> bool" where
  "is_DeleteStack ev = (case ev of Ev_DeleteStack _ \<Rightarrow> True | _ \<Rightarrow> False)"

definition is_CreateStack :: "event \<Rightarrow> bool" where
  "is_CreateStack ev = (case ev of Ev_CreateStack _ \<Rightarrow> True | _ \<Rightarrow> False)"

definition inner :: "event \<Rightarrow> bool" where
  "inner ev = (case ev of Ev_DescribeStacks _ \<Rightarrow> True | Ev_Sleep _ \<Rightarrow> True
                 | Ev_Invoke _ _ \<Rightarrow> True | Checked _ \<Rightarrow> True | _ \<Rightarrow> False)"

definition frame :: "FlipTester \<Rightarrow> FlipTester \<Rightarrow> bool" where
  "frame ft ft' = (stackCreated ft' = stackCreated ft \<and> ft_RetainStack ft' = ft_RetainStack ft
     \<and> ft_StackName ft' = ft_StackName ft \<and> Passed ft' = Passed ft
     \<and> initialSleepTimeSeconds ft' = initialSleepTimeSeconds ft
     \<and> postEventSleepTimeSeconds ft' = postEventSleepTimeSeconds ft
     \<and> stackTemplateFilename ft' = stackTemplateFilename ft \<and> stackPrefix ft' = stackPrefix ft
     \<and> subnetId ft' = subnetId ft \<and> vpcId ft' = vpcId ft)"

definition verdict :: "bool \<Rightarrow> string option" where
  "verdict b = (if b then None else Some ''tests failed or took too long'')"

definition attempt_ok :: "event list \<Rightarrow> string option \<Rightarrow> bool" where
  "attempt_ok mid r = (list_all inner mid \<and> (\<forall>b. Checked b \<in> set mid \<longrightarrow> r = verdict b)
      \<and> (r = None \<longrightarrow> Checked True \<in> set mid))"

inductive retries :: "nat \<Rightarrow> string option \<Rightarrow> event list \<Rightarrow> string option \<Rightarrow> bool" where
  stop: "\<not> transient err \<or> n = 0 \<Longrightarrow> retries n err [] err"
| again: "transient err \<Longrightarrow> attempt_ok mid r \<Longrightarrow> retries n r evs err' \<Longrightarrow>
     retries (Suc n) err (Ev_Sleep 10 # Enter_callLamda # mid @ Leave_callLamda r # evs) err'"

definition creation :: "event \<Rightarrow> bool" where
  "creation ev = (case ev of Ev_ReadFile _ \<Rightarrow> True | Ev_Intn \<Rightarrow> True | Ev_CreateStack _ \<Rightarrow> True
                    | Ev_DescribeStacks _ \<Rightarrow> True | Ev_Sleep _ \<Rightarrow> True | _ \<Rightarrow> False)"

definition invoke_phase :: "int \<Rightarrow> event list \<Rightarrow> string option \<Rightarrow> bool" where
  "invoke_phase d evs r = (\<exists>mid r0 rest. evs = Ev_Sleep d # Enter_callLamda # mid @ Leave_callLamda r0 # rest
      \<and> attempt_ok mid r0 \<and> retries 5 r0 rest r)"

definition resumed_call :: "event \<Rightarrow> bool" where
  "resumed_call ev = (case ev of Ev_session_New \<Rightarrow> False | Ev_ReadFile _ \<Rightarrow> False | Ev_Intn \<Rightarrow> False
                        | Ev_CreateStack _ \<Rightarrow> False | _ \<Rightarrow> True)"

definition good_result :: TestResult where
  "good_result = \<lparr>Name = ''google'', ElapsedTimeS = 1 / 2, Message = ''ok'', Success = True,
     Url = ''https://www.google.com'', ResponseCode = 200\<rparr>"

definition failed_result :: TestResult where
  "failed_result = \<lparr>Name = ''time'', ElapsedTimeS = 1 / 2, Message = ''timed out'', Success = False,
     Url = ''https://www.nist.gov'', ResponseCode = 0\<rparr>"

definition slow_result :: TestResult where
  "slow_result = \<lparr>Name = ''gopkg.in'', ElapsedTimeS = 7, Message = ''ok'', Success = True,
     Url = ''https://gopkg.in'', ResponseCode = 200\<rparr>"

definition stack_with :: "string \<Rightarrow> Stack" where
  "stack_with status = \<lparr>st_StackName = ''egress-tester'', StackStatus = status,
     Outputs = [(''FunctionName'', ''probe'')]\<rparr>"

definition env_ok :: env where
  "env_ok = \<lparr>time_Now = (\<lambda>k. ''T''),
     ioutil_ReadFile = (\<lambda>h f. Inr ''body''),
     rand_Intn = (\<lambda>h. 714632),
     cf_CreateStack = (\<lambda>h i. Inr ''stack-id''),
     cf_DescribeStacks = (\<lambda>h n. Inr [stack_with ''CREATE_COMPLETE'']),
     cf_DeleteStack = (\<lambda>h n. None),
     lambda_Invoke = (\<lambda>h f p. Inr ''response''),
     json_Marshal = (\<lambda>ev. Inr ''payload''),
     json_Unmarshal = (\<lambda>p old. (None, [good_result])),
     defaultTemplate = ''template''\<rparr>"

definition input_resume :: FlipTesterInput where
  "input_resume = \<lparr>SubnetId = [], VpcId = [], StackPrefix = [], StackTemplateFilename = [],
     StackName = ''egress-tester'', TestUrls = [], RetainStack = False,
     Session = Some (AwsSession 0), Context = [], InitialSleepTimeSeconds = 0,
     PostEventSleepTimeSeconds = 0\<rparr>"

definition input_fresh :: FlipTesterInput where
  "input_fresh = input_resume\<lparr>StackName := [], SubnetId := ''subnet-d3297188'', VpcId := ''vpc-c8a6c3ae''\<rparr>"

definition New_succeeds :: "env \<Rightarrow> FlipTesterInput \<Rightarrow> bool" where
  "New_succeeds e input =
     (case fst (New e input []) of Return (Some ft, None, _) \<Rightarrow> True | _ \<Rightarrow> False)"

definition started :: "env \<Rightarrow> FlipTesterInput \<Rightarrow> state" where
  "started e input =
     (case New e input [] of
        (Return (Some ft, _, _), h) \<Rightarrow> \<lparr>ftr = ft, hist = h\<rparr>
      | (_, h) \<Rightarrow> \<lparr>ftr = FlipTester_literal None, hist = h\<rparr>)"

definition env_failing :: env where
  "env_failing = env_ok\<lparr>json_Unmarshal := (\<lambda>p old. (None, [good_result, failed_result]))\<rparr>"

definition env_service :: env where
  "env_service = env_ok\<lparr>lambda_Invoke := (\<lambda>h f p. Inl ''ServiceException: not ready'')\<rparr>"

definition env_pending :: env where
  "env_pending = env_ok\<lparr>cf_DescribeStacks := (\<lambda>h n. Inr [stack_with ''CREATE_IN_PROGRESS''])\<rparr>"

definition env_rollback :: env where
  "env_rollback = env_ok\<lparr>cf_DescribeStacks := (\<lambda>h n. Inr [stack_with ''ROLLBACK_COMPLETE''])\<rparr>"


definition is_DescribeStacks :: "event \<Rightarrow> bool" where
  "is_DescribeStacks ev = (case ev of Ev_DescribeStacks _ \<Rightarrow> True | _ \<Rightarrow> False)"

definition answers_ready :: "env \<Rightarrow> string \<Rightarrow> bool" where
  "answers_ready e status =
     (cf_DescribeStacks e = (\<lambda>h n. Inr [stack_with status])
      \<and> json_Marshal e = (\<lambda>ev. Inr ''payload'')
      \<and> lambda_Invoke e = (\<lambda>h f p. Inr ''response'')
      \<and> json_Unmarshal e = (\<lambda>p old. (None, [good_result]))
      \<and> cf_DeleteStack e = (\<lambda>h n. None)
      \<and> cf_CreateStack e = (\<lambda>h i. Inr ''stack-id'')
      \<and> rand_Intn e = (\<lambda>h. 714632)
      \<and> defaultTemplate e = ''template'')"

definition violates :: "TestResult \<Rightarrow> bool" where
  "violates r = (ElapsedTimeS r > maxTime \<or> \<not> Success r)"

definition cite :: "TestResult \<Rightarrow> string" where
  "cite r = (if \<not> Success r then ''test failed: '' @ Url r else ''test took too long: '' @ Url r)"

definition input_retain :: FlipTesterInput where
  "input_retain = input_resume\<lparr>RetainStack := True\<rparr>"

section \<open>Lemmas\<close>

lemma hist_emit [simp]: "hist (emit ev s) = hist s @ [ev]" and ftr_emit [simp]: "ftr (emit ev s) = ftr s"
  by (simp_all add: emit_def)

lemma hist_sleep [simp]: "hist (sleep d s) = hist s @ [Ev_Sleep d]" and ftr_sleep [simp]: "ftr (sleep d s) = ftr s"
  by (simp_all add: sleep_def)

lemma hist_slog [simp]: "hist (slog e m s) = hist s" and ftr_slog [simp]: "ftr (slog e m s) = logMessage e m (ftr s)"
  by (simp_all add: slog_def)

lemma logMessage_fields [simp]:
  "stackCreated (logMessage e m ft) = stackCreated ft"
  "ft_RetainStack (logMessage e m ft) = ft_RetainStack ft"
  "ft_StackName (logMessage e m ft) = ft_StackName ft"
  "Passed (logMessage e m ft) = Passed ft"
  "initialSleepTimeSeconds (logMessage e m ft) = initialSleepTimeSeconds ft"
  "postEventSleepTimeSeconds (logMessage e m ft) = postEventSleepTimeSeconds ft"
  "functionName (logMessage e m ft) = functionName ft"
  "TestResults (logMessage e m ft) = TestResults ft"
  "testEvent (logMessage e m ft) = testEvent ft"
  "stackTemplateFilename (logMessage e m ft) = stackTemplateFilename ft"
  "stackPrefix (logMessage e m ft) = stackPrefix ft"
  "subnetId (logMessage e m ft) = subnetId ft"
  "vpcId (logMessage e m ft) = vpcId ft"
  by (simp_all add: logMessage_def Let_def)

lemma checkResults_fields [simp]:
  "stackCreated (snd (checkResults e rs ft)) = stackCreated ft"
  "ft_RetainStack (snd (checkResults e rs ft)) = ft_RetainStack ft"
  "ft_StackName (snd (checkResults e rs ft)) = ft_StackName ft"
  "Passed (snd (checkResults e rs ft)) = Passed ft"
  "initialSleepTimeSeconds (snd (checkResults e rs ft)) = initialSleepTimeSeconds ft"
  "postEventSleepTimeSeconds (snd (checkResults e rs ft)) = postEventSleepTimeSeconds ft"
  "stackTemplateFilename (snd (checkResults e rs ft)) = stackTemplateFilename ft"
  "stackPrefix (snd (checkResults e rs ft)) = stackPrefix ft"
  "subnetId (snd (checkResults e rs ft)) = subnetId ft"
  "vpcId (snd (checkResults e rs ft)) = vpcId ft"
  by (induction rs) (simp_all add: Let_def)

lemma frame_refl [simp]: "frame ft ft" by (simp add: frame_def)

lemma frame_trans: "frame a b \<Longrightarrow> frame b c \<Longrightarrow> frame a c" by (simp add: frame_def)

lemma frame_logMessage [simp]:
  "frame ft (logMessage e m ft') = frame ft ft'" "frame (logMessage e m ft) ft' = frame ft ft'"
  by (simp_all add: frame_def)

lemma frame_checkResults [simp]: "frame ft (snd (checkResults e rs ft')) = frame ft ft'"
  by (induction rs) (simp_all add: Let_def)

lemma checkResults_ok: "fst (fst (checkResults e rs ft)) = (snd (fst (checkResults e rs ft)) = None)"
  by (induction rs) (simp_all add: Let_def)

lemma getStackInfo_shape:
  "getStackInfo e s = (r, s') \<Longrightarrow> hist s' = hist s @ [Ev_DescribeStacks (ft_StackName (ftr s))] \<and> frame (ftr s) (ftr s')"
  by (auto simp: getStackInfo_def Let_def frame_def split: sum.splits list.splits if_splits)

lemma callLamda_body_cases:
  assumes "callLamda_body e s = (r, s')"
  obtains
    (describe) s2 where "getStackInfo e (slog e ''inside callLambda'' s) = (r, s2)" "r \<noteq> None" "s' = s2"
  | (marshal) s2 m where "getStackInfo e (slog e ''inside callLambda'' s) = (None, s2)" "r = Some m"
      "s' = slog e ''preparing test event'' s2"
  | (invoke) s2 m x y p where "getStackInfo e (slog e ''inside callLambda'' s) = (None, s2)" "r = Some m"
      "hist s' = hist s2 @ [Ev_Sleep x, Ev_Invoke y p]" "frame (ftr s2) (ftr s')"
  | (unmarshal) s2 m x y p where "getStackInfo e (slog e ''inside callLambda'' s) = (None, s2)" "r = Some m"
      "hist s' = hist s2 @ [Ev_Sleep x, Ev_Invoke y p]" "frame (ftr s2) (ftr s')"
  | (checked) s2 x y p b where "getStackInfo e (slog e ''inside callLambda'' s) = (None, s2)"
      "r = (if b then None else Some ''tests failed or took too long'')"
      "hist s' = hist s2 @ [Ev_Sleep x, Ev_Invoke y p, Checked b]" "frame (ftr s2) (ftr s')"
proof -
  obtain r1 s2 where g: "getStackInfo e (slog e ''inside callLambda'' s) = (r1, s2)"
    by (cases "getStackInfo e (slog e ''inside callLambda'' s)")
  show thesis
  proof (cases r1)
    case (Some m)
    with assms g show thesis
      by (intro describe[of s2]) (auto simp add: callLamda_body_def Let_def)
  next
    case None
    note r1 = this
    let ?s3 = "slog e ''preparing test event'' s2"
    show thesis
    proof (cases "json_Marshal e (testEvent (ftr ?s3))")
      case (Inl m)
      with assms g r1 show thesis
        by (intro marshal[of s2 m]) (simp_all add: callLamda_body_def Let_def)
    next
      case (Inr payload)
      note pl = this
      let ?s4 = "slog e (''sleeping '' @ Sprintf_d (postEventSleepTimeSeconds (ftr ?s3)) @ ''s before invoking lambda'') ?s3"
      let ?s6 = "slog e ''invoking lambda'' (sleep (postEventSleepTimeSeconds (ftr ?s4)) ?s4)"
      let ?s7 = "emit (Ev_Invoke (functionName (ftr ?s6)) payload) ?s6"
      show thesis
      proof (cases "lambda_Invoke e (hist ?s6) (functionName (ftr ?s6)) payload")
        case (Inl m)
        with assms g r1 pl have "r = Some m" "s' = ?s7"
          by (simp_all add: callLamda_body_def Let_def)
        then show thesis using g r1
          by (intro invoke[of s2 m]) simp_all
      next
        case (Inr response)
        note resp = this
        obtain uerr decoded where u: "json_Unmarshal e response (TestResults (ftr ?s7)) = (uerr, decoded)"
          by (cases "json_Unmarshal e response (TestResults (ftr ?s7))")
        let ?s8 = "?s7\<lparr>ftr := (ftr ?s7)\<lparr>TestResults := decoded\<rparr>\<rparr>"
        show thesis
        proof (cases uerr)
          case (Some m)
          with assms g r1 pl resp u have "r = Some m" "s' = ?s8"
            by (simp_all add: callLamda_body_def Let_def)
          then show thesis using g r1
            by (intro unmarshal[of s2 m]) (simp_all add: frame_def)
        next
          case None
          let ?s9 = "slog e ''checking results for timing'' ?s8"
          let ?c = "checkResults e (TestResults (ftr ?s9)) (ftr ?s9)"
          let ?b = "snd (fst ?c) = None"
          from assms g r1 pl resp u None
          have "r = (case snd (fst ?c) of Some _ \<Rightarrow> Some ''tests failed or took too long'' | None \<Rightarrow> None)"
            and "s' = slog e ''tests passed'' (emit (Checked ?b) (?s9\<lparr>ftr := snd ?c\<rparr>))"
            by (simp_all add: callLamda_body_def Let_def split: prod.splits)
          then have "r = (if ?b then None else Some ''tests failed or took too long'')"
            and "hist s' = hist s2 @ [Ev_Sleep (postEventSleepTimeSeconds (ftr ?s4)), Ev_Invoke (functionName (ftr ?s6)) payload, Checked ?b]"
            and "frame (ftr s2) (ftr s')"
            by (simp_all add: frame_def split: option.splits)
          then show thesis using g r1
            by (intro checked[of s2 ?b]) simp_all
        qed
      qed
    qed
  qed
qed

lemma callLamda_body_shape:
  assumes "callLamda_body e s = (r, s')"
  shows "\<exists>mid. hist s' = hist s @ mid \<and> list_all inner mid \<and> frame (ftr s) (ftr s')
     \<and> (\<forall>b. Checked b \<in> set mid \<longrightarrow> r = (if b then None else Some ''tests failed or took too long''))
     \<and> (r = None \<longrightarrow> Checked True \<in> set mid)"
  using assms
proof (cases rule: callLamda_body_cases)
  case (describe s2)
  then show ?thesis by (auto dest!: getStackInfo_shape simp: inner_def)
next
  case (marshal s2 m)
  then show ?thesis by (auto dest!: getStackInfo_shape simp: inner_def)
next
  case (invoke s2 m x y p)
  then show ?thesis by (auto dest!: getStackInfo_shape simp: inner_def frame_def)
next
  case (unmarshal s2 m x y p)
  then show ?thesis by (auto dest!: getStackInfo_shape simp: inner_def frame_def)
next
  case (checked s2 x y p b)
  then show ?thesis by (auto dest!: getStackInfo_shape simp: inner_def frame_def)
qed

lemma callLamda_shape:
  assumes "callLamda e s = (r, s')"
  shows "\<exists>mid. hist s' = hist s @ Enter_callLamda # mid @ [Leave_callLamda r]
     \<and> list_all inner mid \<and> frame (ftr s) (ftr s')
     \<and> (\<forall>b. Checked b \<in> set mid \<longrightarrow> r = (if b then None else Some ''tests failed or took too long''))
     \<and> (r = None \<longrightarrow> Checked True \<in> set mid)"
proof -
  obtain s1 where b: "callLamda_body e (emit Enter_callLamda s) = (r, s1)"
    and s': "s' = emit (Leave_callLamda r) s1"
    using assms by (auto simp: callLamda_def Let_def split: prod.splits)
  from callLamda_body_shape[OF b] s' show ?thesis by auto
qed

lemma callLamda_attempt:
  assumes "callLamda e s = (r, s')"
  shows "\<exists>mid. hist s' = hist s @ Enter_callLamda # mid @ [Leave_callLamda r]
     \<and> attempt_ok mid r \<and> frame (ftr s) (ftr s')"
  using callLamda_shape[OF assms] unfolding attempt_ok_def verdict_def by blast

lemma Test_retry_retries:
  "Test_retry e n (err, s) = (err', s') \<Longrightarrow>
   \<exists>evs. hist s' = hist s @ evs \<and> retries n err evs err' \<and> frame (ftr s) (ftr s')"
proof (induction n arbitrary: err s)
  case 0
  then show ?case by (auto intro: retries.stop)
next
  case (Suc n)
  show ?case
  proof (cases "transient err")
    case False
    then have "Test_retry e (Suc n) (err, s) = Test_retry e n (err, s)"
      by (auto simp: transient_def split: option.splits)
    with Suc.prems have "Test_retry e n (err, s) = (err', s')" by simp
    from Suc.IH[OF this] obtain evs where
      evs: "hist s' = hist s @ evs" "retries n err evs err'" "frame (ftr s) (ftr s')" by blast
    from evs(2) False have "evs = [] \<and> err' = err"
      by (cases rule: retries.cases) auto
    with evs False show ?thesis by (auto intro: retries.stop)
  next
    case True
    then obtain m where m: "err = Some m" "Contains m ''Service''"
      by (auto simp: transient_def split: option.splits)
    let ?s1 = "sleep 10 (slog e ''service exception, sleeping and trying lambda again'' s)"
    obtain r s2 where c: "callLamda e ?s1 = (r, s2)" by (cases "callLamda e ?s1")
    with Suc.prems m have "Test_retry e n (r, s2) = (err', s')" by simp
    from Suc.IH[OF this] obtain evs where
      evs: "hist s' = hist s2 @ evs" "retries n r evs err'" "frame (ftr s2) (ftr s')" by blast
    from callLamda_attempt[OF c] obtain mid where
      mid: "hist s2 = hist ?s1 @ Enter_callLamda # mid @ [Leave_callLamda r]"
        "attempt_ok mid r" "frame (ftr ?s1) (ftr s2)" by blast
    have "hist s' = hist s @ (Ev_Sleep 10 # Enter_callLamda # mid @ Leave_callLamda r # evs)"
      using evs(1) mid(1) by simp
    moreover have "retries (Suc n) err (Ev_Sleep 10 # Enter_callLamda # mid @ Leave_callLamda r # evs) err'"
      using True mid(2) evs(2) by (rule retries.again)
    moreover have "frame (ftr s) (ftr s')"
      using mid(3) evs(3) by (auto intro: frame_trans)
    ultimately show ?thesis by blast
  qed
qed

lemma attempts_append [simp]: "attempts (xs @ ys) = attempts xs @ attempts ys"
  by (induction xs) simp_all

lemma attempts_inner [simp]: "list_all inner mid \<Longrightarrow> attempts mid = []"
  by (induction mid) (auto simp: inner_def split: event.splits)

lemma retry_delays_inner [simp]: "list_all inner mid \<Longrightarrow> retry_delays (mid @ xs) = retry_delays xs"
proof (induction mid)
  case Nil
  then show ?case by simp
next
  case (Cons ev mid)
  then show ?case by (cases ev) (simp_all add: inner_def)
qed






lemma retries_verdict:
  "retries n err evs err' \<Longrightarrow> Checked b \<in> set evs \<Longrightarrow> err' = verdict b"
proof (induction rule: retries.induct)
  case (stop err n)
  then show ?case by simp
next
  case (again err mid r n evs err')
  from again.prems consider "Checked b \<in> set mid" | "Checked b \<in> set evs" by auto
  then show ?case
  proof cases
    case 1
    with again.hyps(2) have r: "r = verdict b" by (simp add: attempt_ok_def)
    then have "\<not> transient r" by (cases b) (simp_all add: verdict_def transient_def)
    with again.hyps(3) have "err' = r" by (cases rule: retries.cases) auto
    with r show ?thesis by simp
  next
    case 2
    then show ?thesis by (rule again.IH)
  qed
qed

lemma retries_passed:
  "retries n err evs err' \<Longrightarrow> err' = None \<Longrightarrow> err \<noteq> None \<Longrightarrow> Checked True \<in> set evs"
proof (induction rule: retries.induct)
  case (stop err n)
  then show ?case by simp
next
  case (again err mid r n evs err')
  show ?case
  proof (cases r)
    case None
    with again.hyps(2) show ?thesis by (simp add: attempt_ok_def)
  next
    case (Some m)
    with again.IH again.prems show ?thesis by simp
  qed
qed

lemma retries_events:
  "retries n err evs err' \<Longrightarrow> list_all (\<lambda>ev. inner ev \<or> ev = Enter_callLamda \<or> (\<exists>r. ev = Leave_callLamda r)) evs"
  by (induction rule: retries.induct) (auto simp: attempt_ok_def inner_def list_all_iff)

lemma watchStack_loop_shape:
  "watchStack_loop e stackID maxtries count stack s = (res, s') \<Longrightarrow>
   \<exists>evs. hist s' = hist s @ evs \<and> list_all creation evs \<and> frame (ftr s) (ftr s')"
proof (induction e stackID maxtries count stack s arbitrary: res s' rule: watchStack_loop.induct)
  case (1 e stackID maxtries count stack s)
  let ?s1 = "slog e ''waiting on stack'' s"
  let ?s2 = "emit (Ev_DescribeStacks stackID) ?s1"
  show ?case
  proof (cases "count + 1 > maxtries")
    case True
    with "1.prems" show ?thesis by (simp add: watchStack_loop.simps)
  next
    case False
    note more = this
    show ?thesis
    proof (cases "cf_DescribeStacks e (hist ?s1) stackID")
      case (Inl err)
      with "1.prems" more have "s' = ?s2" by (simp add: watchStack_loop.simps Let_def)
      then show ?thesis by (simp add: creation_def)
    next
      case (Inr stacks)
      note stacks = this
      show ?thesis
      proof (cases stacks)
        case Nil
        with "1.prems" more stacks have "s' = ?s2" by (simp add: watchStack_loop.simps Let_def)
        then show ?thesis by (simp add: creation_def)
      next
        case (Cons stack' rest)
        show ?thesis
        proof (cases "returns_at (StackStatus stack')")
          case True
          with "1.prems" more stacks Cons have "s' = ?s2" by (simp add: watchStack_loop.simps Let_def)
          then show ?thesis by (simp add: creation_def)
        next
          case False
          with "1.prems" more stacks Cons
          have "watchStack_loop e stackID maxtries (count + 1) (Some stack') (sleep 10 ?s2) = (res, s')"
            by (simp add: watchStack_loop.simps[of e stackID maxtries count] Let_def)
          from "1.IH"[OF more refl refl stacks Cons False this]
          show ?thesis by (auto simp: creation_def)
        qed
      qed
    qed
  qed
qed

lemma getTemplateBody_shape:
  "getTemplateBody e s = (res, s') \<Longrightarrow>
   \<exists>evs. hist s' = hist s @ evs \<and> list_all creation evs \<and> ftr s' = ftr s"
  by (auto simp: getTemplateBody_def creation_def split: if_splits)

lemma CreateStack_shape:
  assumes "CreateStack e s = (out, s')"
  shows "\<exists>cre. hist s' = hist s @ cre \<and> list_all creation cre
     \<and> ft_RetainStack (ftr s') = ft_RetainStack (ftr s) \<and> Passed (ftr s') = Passed (ftr s)
     \<and> (out = Return None \<longrightarrow> stackCreated (ftr s'))"
proof -
  let ?s1 = "slog e ''loading template file'' s"
  obtain tb s2 where t: "getTemplateBody e ?s1 = (tb, s2)" by (cases "getTemplateBody e ?s1")
  from getTemplateBody_shape[OF t] obtain ev1 where
    ev1: "hist s2 = hist s @ ev1" "list_all creation ev1" "ftr s2 = ftr ?s1" by auto
  show ?thesis
  proof (cases tb)
    case (Inl err)
    with assms t have "s' = s2" "out = Return (Some err)" by (simp_all add: CreateStack_def Let_def)
    with ev1 show ?thesis by simp
  next
    case (Inr templateBody)
    note tb = this
    define input where "input = \<lparr>TimeoutInMinutes = 15,
        cs_StackName = stackPrefix (ftr (emit Ev_Intn s2)) @ Sprintf_08d (rand_Intn e (hist s2) mod 10000000),
        TemplateBody = templateBody,
        Capabilities = [''CAPABILITY_IAM'', ''CAPABILITY_NAMED_IAM''],
        Parameters = [(''SubnetId'', subnetId (ftr (emit Ev_Intn s2))), (''VpcId'', vpcId (ftr (emit Ev_Intn s2)))]\<rparr>"
    define s4 where "s4 = slog e (''creating stack with name '' @ [CHR 0x27] @ cs_StackName input @ [CHR 0x27]) (emit Ev_Intn s2)"
    define s5 where "s5 = emit (Ev_CreateStack input) s4"
    have h5: "hist s5 = hist s @ ev1 @ [Ev_Intn, Ev_CreateStack input]"
      and f5: "ft_RetainStack (ftr s5) = ft_RetainStack (ftr s)" "Passed (ftr s5) = Passed (ftr s)"
      using ev1 by (simp_all add: s5_def s4_def)
    show ?thesis
    proof (cases "cf_CreateStack e (hist s4) input")
      case (Inl err)
      with assms t tb have "s' = s5" "out = Return (Some err)"
        by (simp_all add: CreateStack_def Let_def input_def s4_def s5_def)
      with h5 f5 ev1(2) show ?thesis by (simp add: creation_def)
    next
      case (Inr StackId)
      note sid = this
      define s7 where "s7 = sleep 5 (s5\<lparr>ftr := (ftr s5)\<lparr>ft_StackName := StackId\<rparr>\<rparr>)"
      obtain stack werr s8 where w: "watchStack e StackId 90 s7 = ((stack, werr), s8)"
        by (cases "watchStack e StackId 90 s7") auto
      from watchStack_loop_shape[OF w[unfolded watchStack_def]] obtain ev2 where
        ev2: "hist s8 = hist s7 @ ev2" "list_all creation ev2" "frame (ftr s7) (ftr s8)" by blast
      have h8: "hist s8 = hist s @ (ev1 @ [Ev_Intn, Ev_CreateStack input, Ev_Sleep 5] @ ev2)"
        using ev2(1) h5 by (simp add: s7_def)
      have c8: "list_all creation (ev1 @ [Ev_Intn, Ev_CreateStack input, Ev_Sleep 5] @ ev2)"
        using ev1(2) ev2(2) by (simp add: creation_def)
      have f8: "ft_RetainStack (ftr s8) = ft_RetainStack (ftr s)" "Passed (ftr s8) = Passed (ftr s)"
        using ev2(3) f5 by (simp_all add: frame_def s7_def)
      let ?ev = "ev1 @ [Ev_Intn, Ev_CreateStack input, Ev_Sleep 5] @ ev2"
      show ?thesis
      proof (cases werr)
        case (Some err)
        with assms t tb sid w have "s' = s8" "out = Return (Some err)"
          by (auto simp add: CreateStack_def Let_def input_def s4_def s5_def s7_def split: option.splits)
        with h8 c8 f8 show ?thesis by (intro exI[of _ ?ev]) simp
      next
        case None
        note werr = this
        show ?thesis
        proof (cases stack)
          case None
          with assms t tb sid w werr have "s' = s8" "out = Panic"
            by (simp_all add: CreateStack_def Let_def input_def s4_def s5_def s7_def)
          with h8 c8 f8 show ?thesis by (intro exI[of _ ?ev]) simp
        next
          case (Some stk)
          with assms t tb sid w werr
          have "s' = s8\<lparr>ftr := (ftr s8)\<lparr>ft_StackName := st_StackName stk, stackCreated := True\<rparr>\<rparr>"
            by (simp_all add: CreateStack_def Let_def input_def s4_def s5_def s7_def)
          with h8 c8 f8 show ?thesis by (intro exI[of _ ?ev]) simp
        qed
      qed
    qed
  qed
qed

lemma Test_invoke_shape:
  assumes "Test_invoke e s = (r, s')" and "stackCreated (ftr s)"
  shows "\<exists>evs. hist s' = hist s @ evs \<and> invoke_phase (initialSleepTimeSeconds (ftr s)) evs r
    \<and> stackCreated (ftr s') \<and> ft_RetainStack (ftr s') = ft_RetainStack (ftr s)
    \<and> ft_StackName (ftr s') = ft_StackName (ftr s)
    \<and> (if r = None then Passed (ftr s') else Passed (ftr s') = Passed (ftr s))"
proof -
  let ?d = "initialSleepTimeSeconds (ftr s)"
  let ?s1 = "slog e (''sleeping '' @ Sprintf_d ?d @ '' seconds before calling lambda'') s"
  let ?s3 = "slog e ''calling lambda'' (sleep (initialSleepTimeSeconds (ftr ?s1)) ?s1)"
  obtain r0 s4 where c: "callLamda e ?s3 = (r0, s4)" by (cases "callLamda e ?s3")
  let ?s5 = "slog e ''called lambda, processing errors'' s4"
  obtain r' s6 where t: "Test_retry e 5 (r0, ?s5) = (r', s6)" by (cases "Test_retry e 5 (r0, ?s5)")
  from callLamda_attempt[OF c] obtain mid where
    mid: "hist s4 = hist ?s3 @ Enter_callLamda # mid @ [Leave_callLamda r0]"
      "attempt_ok mid r0" "frame (ftr ?s3) (ftr s4)" by blast
  from Test_retry_retries[OF t] obtain rest where
    rest: "hist s6 = hist ?s5 @ rest" "retries 5 r0 rest r'" "frame (ftr ?s5) (ftr s6)" by blast
  have fr: "frame (ftr s) (ftr s6)"
    using mid(3) rest(3) by (simp add: frame_def)
  have h6: "hist s6 = hist s @ (Ev_Sleep ?d # Enter_callLamda # mid @ Leave_callLamda r0 # rest)"
    using mid(1) rest(1) by simp
  have ph: "invoke_phase ?d (Ev_Sleep ?d # Enter_callLamda # mid @ Leave_callLamda r0 # rest) r'"
    unfolding invoke_phase_def using mid(2) rest(2) by blast
  from assms c t have r: "r = r'" and s': "s' = (if r' = None then s6\<lparr>ftr := (ftr s6)\<lparr>Passed := True\<rparr>\<rparr> else s6)"
    by (auto simp: Test_invoke_def Let_def split: option.splits)
  show ?thesis
    using h6 ph fr assms(2) unfolding r s'
    by (intro exI[of _ "Ev_Sleep ?d # Enter_callLamda # mid @ Leave_callLamda r0 # rest"]) (simp add: frame_def)
qed

lemma Test_teardown_shape:
  assumes "Test_teardown e s = (r, s')"
  shows "ft_StackName (ftr s') = ft_StackName (ftr s) \<and> Passed (ftr s') = Passed (ftr s) \<and>
    (if ft_RetainStack (ftr s)
     then hist s' = hist s \<and> r = None \<and> stackCreated (ftr s') = stackCreated (ftr s)
     else hist s' = hist s @ [Ev_DeleteStack (ft_StackName (ftr s))]
          \<and> r = cf_DeleteStack e (hist s) (ft_StackName (ftr s))
          \<and> stackCreated (ftr s') = (r \<noteq> None \<and> stackCreated (ftr s)))"
proof (cases "ft_RetainStack (ftr s)")
  case True
  with assms show ?thesis by (auto simp: Test_teardown_def Let_def)
next
  case False
  show ?thesis
  proof (cases "cf_DeleteStack e (hist s) (ft_StackName (ftr s))")
    case None
    with assms False show ?thesis by (auto simp: Test_teardown_def DeleteStack_def Let_def)
  next
    case (Some m)
    with assms False have "r = Some m"
      and "s' = slog e (''errors: '' @ m) (emit (Ev_DeleteStack (ft_StackName (ftr s))) (slog e ''deleting stack'' s))"
      by (auto simp: Test_teardown_def DeleteStack_def Let_def)
    with False Some show ?thesis by simp
  qed
qed

lemma Test_cases:
  assumes "Test e s = (out, s')"
  obtains
    (create_failed) cre where "hist s' = hist s @ cre" "list_all creation cre"
      "\<not> stackCreated (ftr s)" "out \<noteq> Return None"
  | (invoke_failed) cre inv d m where "hist s' = hist s @ cre @ inv" "list_all creation cre"
      "stackCreated (ftr s) \<longrightarrow> cre = []" "invoke_phase d inv (Some m)" "out = Return (Some m)"
      "stackCreated (ftr s')" "Passed (ftr s') = Passed (ftr s)"
  | (retained) cre inv d where "ft_RetainStack (ftr s)" "hist s' = hist s @ cre @ inv"
      "list_all creation cre" "stackCreated (ftr s) \<longrightarrow> cre = []" "invoke_phase d inv None"
      "out = Return None" "stackCreated (ftr s')" "Passed (ftr s')"
  | (deleted) cre inv d dr where "\<not> ft_RetainStack (ftr s)"
      "hist s' = hist s @ cre @ inv @ [Ev_DeleteStack (ft_StackName (ftr s'))]"
      "list_all creation cre" "stackCreated (ftr s) \<longrightarrow> cre = []" "invoke_phase d inv None"
      "out = Return dr" "stackCreated (ftr s') = (dr \<noteq> None)" "Passed (ftr s')"
      "dr = cf_DeleteStack e (hist s @ cre @ inv) (ft_StackName (ftr s'))"
proof -
  let ?s1 = "slog e ''starting test'' s"
  define c where "c = (if \<not> stackCreated (ftr ?s1)
            then CreateStack e (slog e ''stack doesn't exist yet, creating stack'' ?s1)
            else (Return None, ?s1))"
  obtain o2 s2 where c2: "c = (o2, s2)" by (cases c)
  have T: "Test e s =
      (case c of
         (Panic, s2) \<Rightarrow> (Panic, s2)
       | (Return (Some err), s2) \<Rightarrow> (Return (Some err), s2)
       | (Return None, s2) \<Rightarrow>
           (case Test_invoke e s2 of
              (Some err, s3) \<Rightarrow> (Return (Some err), s3)
            | (None, s3) \<Rightarrow> (let (err, s4) = Test_teardown e s3 in (Return err, s4))))"
    by (simp add: Test_def Let_def c_def)
  have "\<exists>cre. hist s2 = hist s @ cre \<and> list_all creation cre \<and> (stackCreated (ftr s) \<longrightarrow> cre = [])
      \<and> ft_RetainStack (ftr s2) = ft_RetainStack (ftr s) \<and> Passed (ftr s2) = Passed (ftr s)
      \<and> (o2 = Return None \<longrightarrow> stackCreated (ftr s2)) \<and> (stackCreated (ftr s) \<longrightarrow> o2 = Return None)"
  proof (cases "stackCreated (ftr s)")
    case True
    with c2 show ?thesis by (auto simp: c_def)
  next
    case False
    with c2 have "CreateStack e (slog e ''stack doesn't exist yet, creating stack'' ?s1) = (o2, s2)"
      by (simp add: c_def)
    from CreateStack_shape[OF this] False show ?thesis by auto
  qed
  then obtain cre where cre: "hist s2 = hist s @ cre" "list_all creation cre"
      "stackCreated (ftr s) \<longrightarrow> cre = []" "ft_RetainStack (ftr s2) = ft_RetainStack (ftr s)"
      "Passed (ftr s2) = Passed (ftr s)" "o2 = Return None \<longrightarrow> stackCreated (ftr s2)"
      "stackCreated (ftr s) \<longrightarrow> o2 = Return None" by blast
  show thesis
  proof (cases "o2 = Return None")
    case False
    with assms c2 have "s' = s2" "out = o2"
      by (auto simp: T split: outcome.splits option.splits)
    with cre False show thesis
      by (intro create_failed[of cre]) auto
  next
    case True
    note o2 = this
    with cre have sc: "stackCreated (ftr s2)" by simp
    obtain r s3 where i: "Test_invoke e s2 = (r, s3)" by (cases "Test_invoke e s2")
    from Test_invoke_shape[OF i sc] obtain inv where
      inv: "hist s3 = hist s2 @ inv" "invoke_phase (initialSleepTimeSeconds (ftr s2)) inv r"
        "stackCreated (ftr s3)" "ft_RetainStack (ftr s3) = ft_RetainStack (ftr s2)"
        "ft_StackName (ftr s3) = ft_StackName (ftr s2)"
        "if r = None then Passed (ftr s3) else Passed (ftr s3) = Passed (ftr s2)" by blast
    show thesis
    proof (cases r)
      case (Some m)
      with assms c2 o2 i have "s' = s3" "out = Return r"
        by (auto simp: T)
      with cre(1,2,3,5) inv Some show thesis
        by (intro invoke_failed[of cre inv "initialSleepTimeSeconds (ftr s2)" m]) simp_all
    next
      case None
      obtain dr s4 where t: "Test_teardown e s3 = (dr, s4)" by (cases "Test_teardown e s3")
      with assms c2 o2 i None have o: "s' = s4" "out = Return dr"
        by (auto simp: T)
      have ph: "invoke_phase (initialSleepTimeSeconds (ftr s2)) inv None"
        using inv(2) None by simp
      have p3: "Passed (ftr s3)" using inv(6) None by simp
      note td = Test_teardown_shape[OF t]
      show thesis
      proof (cases "ft_RetainStack (ftr s)")
        case True
        with td inv(4) cre(4) have "hist s4 = hist s3" "dr = None" "stackCreated (ftr s4)"
          "Passed (ftr s4)" using inv(3) p3 by simp_all
        with True cre(1,2,3) inv(1) ph o show thesis
          by (intro retained[of cre inv "initialSleepTimeSeconds (ftr s2)"]) simp_all
      next
        case False
        with td inv(4) cre(4) have "hist s4 = hist s3 @ [Ev_DeleteStack (ft_StackName (ftr s4))]"
          "stackCreated (ftr s4) = (dr \<noteq> None)" "Passed (ftr s4)"
          "dr = cf_DeleteStack e (hist s3) (ft_StackName (ftr s4))" using inv(3) p3 by simp_all
        with False cre(1,2,3) inv(1) ph o show thesis
          by (intro deleted[of cre inv "initialSleepTimeSeconds (ftr s2)" dr]) simp_all
      qed
    qed
  qed
qed

lemma added_append: "hist s' = hist s @ evs \<Longrightarrow> added s s' = evs"
  by (simp add: added_def)

lemma attempts_creation [simp]: "list_all creation cre \<Longrightarrow> attempts cre = []"
  by (induction cre) (auto simp: creation_def split: event.splits)




lemma invoke_phase_verdict:
  assumes "invoke_phase d evs r" and "Checked b \<in> set evs"
  shows "r = verdict b"
proof -
  from assms obtain mid r0 rest where
    evs: "evs = Ev_Sleep d # Enter_callLamda # mid @ Leave_callLamda r0 # rest"
    and mid: "attempt_ok mid r0" and rest: "retries 5 r0 rest r"
    unfolding invoke_phase_def by blast
  from assms(2) evs consider "Checked b \<in> set mid" | "Checked b \<in> set rest" by auto
  then show ?thesis
  proof cases
    case 1
    with mid have r0: "r0 = verdict b" by (simp add: attempt_ok_def)
    then have "\<not> transient r0" by (cases b) (simp_all add: verdict_def transient_def)
    with rest have "r = r0" by (cases rule: retries.cases) auto
    with r0 show ?thesis by simp
  next
    case 2
    with rest show ?thesis by (rule retries_verdict)
  qed
qed

lemma invoke_phase_passed:
  assumes "invoke_phase d evs None"
  shows "Checked True \<in> set evs"
proof -
  from assms obtain mid r0 rest where
    evs: "evs = Ev_Sleep d # Enter_callLamda # mid @ Leave_callLamda r0 # rest"
    and mid: "attempt_ok mid r0" and rest: "retries 5 r0 rest None"
    unfolding invoke_phase_def by blast
  show ?thesis
  proof (cases r0)
    case None
    with mid evs show ?thesis by (simp add: attempt_ok_def)
  next
    case (Some m)
    with retries_passed[OF rest] evs show ?thesis by simp
  qed
qed

lemma invoke_phase_events:
  assumes "invoke_phase d evs r"
  shows "list_all resumed_call evs" "list_all (\<lambda>ev. \<not> is_DeleteStack ev) evs"
proof -
  from assms obtain mid r0 rest where
    evs: "evs = Ev_Sleep d # Enter_callLamda # mid @ Leave_callLamda r0 # rest"
    and mid: "attempt_ok mid r0" and rest: "retries 5 r0 rest r"
    unfolding invoke_phase_def by blast
  have i: "inner ev \<Longrightarrow> resumed_call ev \<and> \<not> is_DeleteStack ev" for ev
    by (cases ev) (simp_all add: inner_def resumed_call_def is_DeleteStack_def)
  from retries_events[OF rest] mid i
  show "list_all resumed_call evs" "list_all (\<lambda>ev. \<not> is_DeleteStack ev) evs"
    by (auto simp: evs attempt_ok_def list_all_iff resumed_call_def is_DeleteStack_def)
qed

lemma creation_events:
  "list_all creation cre \<Longrightarrow> list_all (\<lambda>ev. \<not> is_DeleteStack ev) cre \<and> (\<forall>b. Checked b \<notin> set cre)"
  by (induction cre) (auto simp: creation_def is_DeleteStack_def split: event.splits)

lemma started_resume [simp]:
  "hist (started env_ok input_resume) = []"
  "stackCreated (ftr (started env_ok input_resume))"
  "\<not> ft_RetainStack (ftr (started env_ok input_resume))"
  "ft_StackName (ftr (started env_ok input_resume)) = ''egress-tester''"
  "initialSleepTimeSeconds (ftr (started env_ok input_resume)) = 40"
  "postEventSleepTimeSeconds (ftr (started env_ok input_resume)) = 20"
  "\<not> Passed (ftr (started env_ok input_resume))"
  "stackTemplateFilename (ftr (started env_ok input_resume)) = []"
  "stackPrefix (ftr (started env_ok input_resume)) = []"
  "subnetId (ftr (started env_ok input_resume)) = []"
  "vpcId (ftr (started env_ok input_resume)) = []"
  by (simp_all add: started_def New_def New_finish_def input_resume_def FlipTester_literal_def Let_def)

lemma started_fresh [simp]:
  "hist (started env_ok input_fresh) = []"
  "\<not> stackCreated (ftr (started env_ok input_fresh))"
  "\<not> ft_RetainStack (ftr (started env_ok input_fresh))"
  "initialSleepTimeSeconds (ftr (started env_ok input_fresh)) = 40"
  "postEventSleepTimeSeconds (ftr (started env_ok input_fresh)) = 20"
  "stackTemplateFilename (ftr (started env_ok input_fresh)) = []"
  "stackPrefix (ftr (started env_ok input_fresh)) = ''ISS-GR-egress-tester-''"
  "subnetId (ftr (started env_ok input_fresh)) = ''subnet-d3297188''"
  "vpcId (ftr (started env_ok input_fresh)) = ''vpc-c8a6c3ae''"
  by (simp_all add: started_def New_def New_finish_def input_fresh_def input_resume_def
        FlipTester_literal_def DefaultStackPrefix_def Let_def)

lemma New_succeeds_fixtures: "New_succeeds env_ok input_resume" "New_succeeds env_ok input_fresh"
  by (simp_all add: New_succeeds_def New_def New_finish_def input_resume_def input_fresh_def Let_def)

lemma callLamda_frame [simp]:
  "stackCreated (ftr (snd (callLamda e s))) = stackCreated (ftr s)"
  "ft_RetainStack (ftr (snd (callLamda e s))) = ft_RetainStack (ftr s)"
  "ft_StackName (ftr (snd (callLamda e s))) = ft_StackName (ftr s)"
  "Passed (ftr (snd (callLamda e s))) = Passed (ftr s)"
  "initialSleepTimeSeconds (ftr (snd (callLamda e s))) = initialSleepTimeSeconds (ftr s)"
  "postEventSleepTimeSeconds (ftr (snd (callLamda e s))) = postEventSleepTimeSeconds (ftr s)"
  "stackTemplateFilename (ftr (snd (callLamda e s))) = stackTemplateFilename (ftr s)"
  "stackPrefix (ftr (snd (callLamda e s))) = stackPrefix (ftr s)"
  "subnetId (ftr (snd (callLamda e s))) = subnetId (ftr s)"
  "vpcId (ftr (snd (callLamda e s))) = vpcId (ftr s)"
  using callLamda_attempt[of e s "fst (callLamda e s)" "snd (callLamda e s)"]
  by (auto simp: frame_def)

lemma callLamda_failing [simp]:
  "hist (snd (callLamda env_failing s)) = hist s @ [Enter_callLamda, Ev_DescribeStacks (ft_StackName (ftr s)),
      Ev_Sleep (postEventSleepTimeSeconds (ftr s)), Ev_Invoke ''probe'' ''payload'', Checked False,
      Leave_callLamda (Some ''tests failed or took too long'')]"
  "fst (callLamda env_failing s) = Some ''tests failed or took too long''"
  by (simp_all add: callLamda_def callLamda_body_def getStackInfo_def env_failing_def env_ok_def
       stack_with_def good_result_def failed_result_def maxTime_def Let_def split: prod.splits)

lemma callLamda_service [simp]:
  "hist (snd (callLamda env_service s)) = hist s @ [Enter_callLamda, Ev_DescribeStacks (ft_StackName (ftr s)),
      Ev_Sleep (postEventSleepTimeSeconds (ftr s)), Ev_Invoke ''probe'' ''payload'',
      Leave_callLamda (Some ''ServiceException: not ready'')]"
  "fst (callLamda env_service s) = Some ''ServiceException: not ready''"
  by (simp_all add: callLamda_def callLamda_body_def getStackInfo_def env_service_def env_ok_def
       stack_with_def Let_def split: prod.splits)

lemma callLamda_ok:
  assumes "cf_DescribeStacks e = (\<lambda>h n. Inr [stack_with status])" "json_Marshal e = (\<lambda>ev. Inr ''payload'')"
    "lambda_Invoke e = (\<lambda>h f p. Inr ''response'')" "json_Unmarshal e = (\<lambda>p old. (None, [good_result]))"
  shows "hist (snd (callLamda e s)) = hist s @ [Enter_callLamda, Ev_DescribeStacks (ft_StackName (ftr s)),
      Ev_Sleep (postEventSleepTimeSeconds (ftr s)), Ev_Invoke ''probe'' ''payload'', Checked True,
      Leave_callLamda None]"
  "fst (callLamda e s) = None"
  by (simp_all add: callLamda_def callLamda_body_def getStackInfo_def assms
       stack_with_def good_result_def maxTime_def Let_def split: prod.splits)

lemma Test_retry_stop: "\<not> transient (fst p) \<Longrightarrow> Test_retry e n p = p"
  by (induction n; cases p) (auto simp: transient_def split: option.splits)

lemma Test_failing:
  assumes "stackCreated (ftr s)"
  shows "fst (Test env_failing s) = Return (Some ''tests failed or took too long'')"
    "hist (snd (Test env_failing s)) = hist s @ [Ev_Sleep (initialSleepTimeSeconds (ftr s)), Enter_callLamda,
       Ev_DescribeStacks (ft_StackName (ftr s)),
      Ev_Sleep (postEventSleepTimeSeconds (ftr s)), Ev_Invoke ''probe'' ''payload'', Checked False,
      Leave_callLamda (Some ''tests failed or took too long'')]"
  using assms
  by (simp_all add: Test_def Test_invoke_def Let_def case_prod_beta Test_retry_stop transient_def)



lemma replicate_two: "replicate 2 x = [x, x]"
  by (simp add: numeral_2_eq_2)

lemma decimal_714632: "decimal 714632 = ''714632''"
  by (simp add: decimal.simps digit_def)

lemma Sprintf_08d_714632: "Sprintf_08d (714632 mod 10000000) = ''00714632''"
  by (simp add: Sprintf_08d_def decimal_714632 replicate_two)

lemma watchStack_pending:
  "watchStack env_pending ''stack-id'' 3 s =
     ((Some (stack_with ''CREATE_IN_PROGRESS''), None),
      snd (watchStack env_pending ''stack-id'' 3 s))"
  "added s (snd (watchStack env_pending ''stack-id'' 3 s)) =
     [Ev_DescribeStacks ''stack-id'', Ev_Sleep 10, Ev_DescribeStacks ''stack-id'', Ev_Sleep 10,
      Ev_DescribeStacks ''stack-id'', Ev_Sleep 10]"
  by (simp_all add: watchStack_def watchStack_loop.simps env_pending_def env_ok_def stack_with_def
        returns_at_def Let_def added_def)

lemma watchStack_loop_timeout:
  "(\<And>h. \<exists>stk rest. cf_DescribeStacks e h stackID = Inr (stk # rest) \<and> \<not> returns_at (StackStatus stk))
   \<Longrightarrow> snd (fst (watchStack_loop e stackID maxtries count stack s)) = None
     \<and> length (filter is_DescribeStacks (added s (snd (watchStack_loop e stackID maxtries count stack s))))
         = nat (maxtries - count)
     \<and> (count < maxtries \<longrightarrow> fst (fst (watchStack_loop e stackID maxtries count stack s)) \<noteq> None)"
proof (induction e stackID maxtries count stack s rule: watchStack_loop.induct)
  case (1 e stackID maxtries count stack s)
  let ?s1 = "slog e ''waiting on stack'' s"
  let ?s2 = "emit (Ev_DescribeStacks stackID) ?s1"
  show ?case
  proof (cases "count + 1 > maxtries")
    case True
    then show ?thesis by (simp add: watchStack_loop.simps[of e stackID maxtries count stack s] added_def)
  next
    case False
    from "1.prems"[of "hist ?s1"] obtain stk rest where
      d: "cf_DescribeStacks e (hist ?s1) stackID = Inr (stk # rest)" "\<not> returns_at (StackStatus stk)"
      by blast
    let ?r = "watchStack_loop e stackID maxtries (count + 1) (Some stk) (sleep 10 ?s2)"
    have u: "watchStack_loop e stackID maxtries count stack s = ?r"
      using False d by (simp add: watchStack_loop.simps[of e stackID maxtries count stack s] Let_def)
    note ih = "1.IH"[OF False refl refl d(1) refl d(2) "1.prems"]
    obtain evs where evs: "hist (snd ?r) = hist (sleep 10 ?s2) @ evs"
      using watchStack_loop_shape[of e stackID maxtries "count + 1" "Some stk" "sleep 10 ?s2" "fst ?r" "snd ?r"]
      by auto
    then have a: "added s (snd ?r) = [Ev_DescribeStacks stackID, Ev_Sleep 10] @ added (sleep 10 ?s2) (snd ?r)"
      by (simp add: added_def)
    have n: "fst (fst ?r) \<noteq> None"
    proof (cases "count + 1 < maxtries")
      case True
      with ih show ?thesis by simp
    next
      case False
      then show ?thesis
        by (simp add: watchStack_loop.simps[of e stackID maxtries "count + 1" "Some stk" "sleep 10 ?s2"])
    qed
    from ih False n show ?thesis
      unfolding u a by (simp add: is_DescribeStacks_def nat_diff_distrib')
  qed
qed

lemma answers_ready_fixtures:
  "answers_ready env_ok ''CREATE_COMPLETE''" "answers_ready env_rollback ''ROLLBACK_COMPLETE''"
  by (simp_all add: answers_ready_def env_ok_def env_rollback_def)

lemma Test_created_ready:
  assumes "answers_ready e status" "stackCreated (ftr s)"
  shows "fst (Test e s) = Return None"
    "added s (snd (Test e s)) =
       [Ev_Sleep (initialSleepTimeSeconds (ftr s)), Enter_callLamda, Ev_DescribeStacks (ft_StackName (ftr s)),
        Ev_Sleep (postEventSleepTimeSeconds (ftr s)), Ev_Invoke ''probe'' ''payload'', Checked True,
        Leave_callLamda None]
       @ (if ft_RetainStack (ftr s) then [] else [Ev_DeleteStack (ft_StackName (ftr s))])"
    "stackCreated (ftr (snd (Test e s))) = ft_RetainStack (ftr s)"
    "frame (ftr s) ((ftr (snd (Test e s)))\<lparr>stackCreated := True, Passed := Passed (ftr s)\<rparr>)"
proof -
  from assms(1) have a: "cf_DescribeStacks e = (\<lambda>h n. Inr [stack_with status])"
    "json_Marshal e = (\<lambda>ev. Inr ''payload'')" "lambda_Invoke e = (\<lambda>h f p. Inr ''response'')"
    "json_Unmarshal e = (\<lambda>p old. (None, [good_result]))" "cf_DeleteStack e = (\<lambda>h n. None)"
    by (simp_all add: answers_ready_def)
  note c = callLamda_ok[OF a(1,2,3,4)]
  show "fst (Test e s) = Return None"
    using assms(2) c
    by (simp add: Test_def Test_invoke_def Test_teardown_def DeleteStack_def Let_def case_prod_beta
          Test_retry_stop transient_def a(5))
  show "added s (snd (Test e s)) =
       [Ev_Sleep (initialSleepTimeSeconds (ftr s)), Enter_callLamda, Ev_DescribeStacks (ft_StackName (ftr s)),
        Ev_Sleep (postEventSleepTimeSeconds (ftr s)), Ev_Invoke ''probe'' ''payload'', Checked True,
        Leave_callLamda None]
       @ (if ft_RetainStack (ftr s) then [] else [Ev_DeleteStack (ft_StackName (ftr s))])"
    using assms(2) c
    by (simp add: Test_def Test_invoke_def Test_teardown_def DeleteStack_def Let_def case_prod_beta
          Test_retry_stop transient_def a(5) added_def)
  show "stackCreated (ftr (snd (Test e s))) = ft_RetainStack (ftr s)"
    using assms(2) c
    by (simp add: Test_def Test_invoke_def Test_teardown_def DeleteStack_def Let_def case_prod_beta
          Test_retry_stop transient_def a(5))
  show "frame (ftr s) ((ftr (snd (Test e s)))\<lparr>stackCreated := True, Passed := Passed (ftr s)\<rparr>)"
    using assms(2) c
    by (simp add: Test_def Test_invoke_def Test_teardown_def DeleteStack_def Let_def case_prod_beta
          Test_retry_stop transient_def a(5) frame_def)
qed

lemma Sprintf_08d_fixture: "Sprintf_08d 714632 = ''00714632''"
  using Sprintf_08d_714632 by simp

lemma CreateStack_ready:
  assumes "answers_ready e status" "returns_at status" "stackTemplateFilename (ftr s) = []"
  shows "fst (CreateStack e s) = Return None"
    "added s (snd (CreateStack e s)) =
       [Ev_Intn,
        Ev_CreateStack \<lparr>TimeoutInMinutes = 15, cs_StackName = stackPrefix (ftr s) @ ''00714632'',
           TemplateBody = ''template'', Capabilities = [''CAPABILITY_IAM'', ''CAPABILITY_NAMED_IAM''],
           Parameters = [(''SubnetId'', subnetId (ftr s)), (''VpcId'', vpcId (ftr s))]\<rparr>,
        Ev_Sleep 5, Ev_DescribeStacks ''stack-id'']"
    "stackCreated (ftr (snd (CreateStack e s)))"
    "ft_StackName (ftr (snd (CreateStack e s))) = ''egress-tester''"
    "frame (ftr s) ((ftr (snd (CreateStack e s)))\<lparr>stackCreated := stackCreated (ftr s),
        ft_StackName := ft_StackName (ftr s)\<rparr>)"
proof -
  from assms(1) have a: "cf_DescribeStacks e = (\<lambda>h n. Inr [stack_with status])"
    "cf_CreateStack e = (\<lambda>h i. Inr ''stack-id'')" "rand_Intn e = (\<lambda>h. 714632)"
    "defaultTemplate e = ''template''"
    by (simp_all add: answers_ready_def)
  have w: "watchStack e ''stack-id'' 90 s' = ((Some (stack_with status), None),
      emit (Ev_DescribeStacks ''stack-id'') (slog e ''waiting on stack'' s'))" for s'
    using assms(2) by (simp add: watchStack_def watchStack_loop.simps[of e _ 90 0] a(1) stack_with_def Let_def)
  show "fst (CreateStack e s) = Return None"
    "added s (snd (CreateStack e s)) =
       [Ev_Intn,
        Ev_CreateStack \<lparr>TimeoutInMinutes = 15, cs_StackName = stackPrefix (ftr s) @ ''00714632'',
           TemplateBody = ''template'', Capabilities = [''CAPABILITY_IAM'', ''CAPABILITY_NAMED_IAM''],
           Parameters = [(''SubnetId'', subnetId (ftr s)), (''VpcId'', vpcId (ftr s))]\<rparr>,
        Ev_Sleep 5, Ev_DescribeStacks ''stack-id'']"
    "stackCreated (ftr (snd (CreateStack e s)))"
    "ft_StackName (ftr (snd (CreateStack e s))) = ''egress-tester''"
    "frame (ftr s) ((ftr (snd (CreateStack e s)))\<lparr>stackCreated := stackCreated (ftr s),
        ft_StackName := ft_StackName (ftr s)\<rparr>)"
    using assms(3)
    by (simp_all add: CreateStack_def getTemplateBody_def Let_def a w Sprintf_08d_fixture added_def
          stack_with_def frame_def)
qed

lemma Test_invoke_ready:
  assumes "answers_ready e status" "stackCreated (ftr s)"
  shows "fst (Test_invoke e s) = None"
    "hist (snd (Test_invoke e s)) = hist s @
       [Ev_Sleep (initialSleepTimeSeconds (ftr s)), Enter_callLamda, Ev_DescribeStacks (ft_StackName (ftr s)),
        Ev_Sleep (postEventSleepTimeSeconds (ftr s)), Ev_Invoke ''probe'' ''payload'', Checked True,
        Leave_callLamda None]"
    "ft_RetainStack (ftr (snd (Test_invoke e s))) = ft_RetainStack (ftr s)"
    "ft_StackName (ftr (snd (Test_invoke e s))) = ft_StackName (ftr s)"
proof -
  from assms(1) have a: "cf_DescribeStacks e = (\<lambda>h n. Inr [stack_with status])"
    "json_Marshal e = (\<lambda>ev. Inr ''payload'')" "lambda_Invoke e = (\<lambda>h f p. Inr ''response'')"
    "json_Unmarshal e = (\<lambda>p old. (None, [good_result]))"
    by (simp_all add: answers_ready_def)
  note c = callLamda_ok[OF a(1,2,3,4)]
  show "fst (Test_invoke e s) = None"
    "hist (snd (Test_invoke e s)) = hist s @
       [Ev_Sleep (initialSleepTimeSeconds (ftr s)), Enter_callLamda, Ev_DescribeStacks (ft_StackName (ftr s)),
        Ev_Sleep (postEventSleepTimeSeconds (ftr s)), Ev_Invoke ''probe'' ''payload'', Checked True,
        Leave_callLamda None]"
    "ft_RetainStack (ftr (snd (Test_invoke e s))) = ft_RetainStack (ftr s)"
    "ft_StackName (ftr (snd (Test_invoke e s))) = ft_StackName (ftr s)"
    using assms(2) c
    by (simp_all add: Test_invoke_def Let_def case_prod_beta Test_retry_stop transient_def)
qed

lemma Test_fresh_ready:
  assumes "answers_ready e status" "returns_at status" "stackTemplateFilename (ftr s) = []"
    "\<not> stackCreated (ftr s)"
  shows "fst (Test e s) = Return None"
    "added s (snd (Test e s)) =
       [Ev_Intn,
        Ev_CreateStack \<lparr>TimeoutInMinutes = 15, cs_StackName = stackPrefix (ftr s) @ ''00714632'',
           TemplateBody = ''template'', Capabilities = [''CAPABILITY_IAM'', ''CAPABILITY_NAMED_IAM''],
           Parameters = [(''SubnetId'', subnetId (ftr s)), (''VpcId'', vpcId (ftr s))]\<rparr>,
        Ev_Sleep 5, Ev_DescribeStacks ''stack-id'',
        Ev_Sleep (initialSleepTimeSeconds (ftr s)), Enter_callLamda, Ev_DescribeStacks ''egress-tester'',
        Ev_Sleep (postEventSleepTimeSeconds (ftr s)), Ev_Invoke ''probe'' ''payload'', Checked True,
        Leave_callLamda None]
       @ (if ft_RetainStack (ftr s) then [] else [Ev_DeleteStack ''egress-tester''])"
proof -
  let ?s1 = "slog e ''stack doesn't exist yet, creating stack'' (slog e ''starting test'' s)"
  have t: "stackTemplateFilename (ftr ?s1) = []" using assms(3) by simp
  note c = CreateStack_ready[OF assms(1,2) t]
  obtain s2 where cp: "CreateStack e ?s1 = (Return None, s2)"
    using c(1) by (cases "CreateStack e ?s1") simp
  from c(2,3,4,5) have s2: "added ?s1 s2 =
       [Ev_Intn,
        Ev_CreateStack \<lparr>TimeoutInMinutes = 15, cs_StackName = stackPrefix (ftr s) @ ''00714632'',
           TemplateBody = ''template'', Capabilities = [''CAPABILITY_IAM'', ''CAPABILITY_NAMED_IAM''],
           Parameters = [(''SubnetId'', subnetId (ftr s)), (''VpcId'', vpcId (ftr s))]\<rparr>,
        Ev_Sleep 5, Ev_DescribeStacks ''stack-id'']"
    "stackCreated (ftr s2)" "ft_StackName (ftr s2) = ''egress-tester''"
    "initialSleepTimeSeconds (ftr s2) = initialSleepTimeSeconds (ftr s)"
    "postEventSleepTimeSeconds (ftr s2) = postEventSleepTimeSeconds (ftr s)"
    "ft_RetainStack (ftr s2) = ft_RetainStack (ftr s)"
    by (simp_all add: cp frame_def)
  obtain cre where cre: "hist s2 = hist ?s1 @ cre"
    using CreateStack_shape[OF cp] by blast
  then have "added ?s1 s2 = cre" by (simp add: added_def)
  with s2(1) cre have h2: "hist s2 = hist s @
       [Ev_Intn,
        Ev_CreateStack \<lparr>TimeoutInMinutes = 15, cs_StackName = stackPrefix (ftr s) @ ''00714632'',
           TemplateBody = ''template'', Capabilities = [''CAPABILITY_IAM'', ''CAPABILITY_NAMED_IAM''],
           Parameters = [(''SubnetId'', subnetId (ftr s)), (''VpcId'', vpcId (ftr s))]\<rparr>,
        Ev_Sleep 5, Ev_DescribeStacks ''stack-id'']"
    by simp
  note i = Test_invoke_ready[OF assms(1) s2(2)]
  obtain s3 where ip: "Test_invoke e s2 = (None, s3)"
    using i(1) by (cases "Test_invoke e s2") simp
  from i(2,3,4) s2 h2 have s3: "hist s3 = hist s @
       [Ev_Intn,
        Ev_CreateStack \<lparr>TimeoutInMinutes = 15, cs_StackName = stackPrefix (ftr s) @ ''00714632'',
           TemplateBody = ''template'', Capabilities = [''CAPABILITY_IAM'', ''CAPABILITY_NAMED_IAM''],
           Parameters = [(''SubnetId'', subnetId (ftr s)), (''VpcId'', vpcId (ftr s))]\<rparr>,
        Ev_Sleep 5, Ev_DescribeStacks ''stack-id'',
        Ev_Sleep (initialSleepTimeSeconds (ftr s)), Enter_callLamda, Ev_DescribeStacks ''egress-tester'',
        Ev_Sleep (postEventSleepTimeSeconds (ftr s)), Ev_Invoke ''probe'' ''payload'', Checked True,
        Leave_callLamda None]"
    "ft_RetainStack (ftr s3) = ft_RetainStack (ftr s)" "ft_StackName (ftr s3) = ''egress-tester''"
    by (simp_all add: ip)
  obtain dr s4 where tp: "Test_teardown e s3 = (dr, s4)" by (cases "Test_teardown e s3")
  from assms(1) have d: "cf_DeleteStack e = (\<lambda>h n. None)" by (simp add: answers_ready_def)
  have T: "Test e s = (Return dr, s4)"
    using assms(4) by (simp add: Test_def cp ip tp Let_def)
  from Test_teardown_shape[OF tp] s3 d
  have "dr = None" "hist s4 = hist s3 @ (if ft_RetainStack (ftr s) then [] else [Ev_DeleteStack ''egress-tester''])"
    by (simp_all split: if_splits)
  with s3(1) show "fst (Test e s) = Return None"
    "added s (snd (Test e s)) =
       [Ev_Intn,
        Ev_CreateStack \<lparr>TimeoutInMinutes = 15, cs_StackName = stackPrefix (ftr s) @ ''00714632'',
           TemplateBody = ''template'', Capabilities = [''CAPABILITY_IAM'', ''CAPABILITY_NAMED_IAM''],
           Parameters = [(''SubnetId'', subnetId (ftr s)), (''VpcId'', vpcId (ftr s))]\<rparr>,
        Ev_Sleep 5, Ev_DescribeStacks ''stack-id'',
        Ev_Sleep (initialSleepTimeSeconds (ftr s)), Enter_callLamda, Ev_DescribeStacks ''egress-tester'',
        Ev_Sleep (postEventSleepTimeSeconds (ftr s)), Ev_Invoke ''probe'' ''payload'', Checked True,
        Leave_callLamda None]
       @ (if ft_RetainStack (ftr s) then [] else [Ev_DeleteStack ''egress-tester''])"
    by (simp_all add: T added_def)
qed

lemma started_retain [simp]:
  "stackCreated (ftr (started env_ok input_retain))"
  "ft_RetainStack (ftr (started env_ok input_retain))"
  by (simp_all add: started_def New_def New_finish_def input_retain_def input_resume_def
        FlipTester_literal_def Let_def)

lemma checkResults_pass:
  "\<forall>x \<in> set rs. \<not> violates x \<Longrightarrow> checkResults e rs ft = ((True, None), ft)"
  by (induction rs) (auto simp: violates_def)

lemma checkResults_fail:
  "\<forall>x \<in> set pre. \<not> violates x \<Longrightarrow> violates r \<Longrightarrow>
   checkResults e (pre @ r # post) ft = ((False, Some (cite r)), logMessage e (cite r) ft)"
  by (induction pre) (auto simp: violates_def cite_def Let_def)

lemma checkResults_alt_empty_list:
  "checkResults_alt e [] ft =
     (Some ''tests failed; no test results to check'',
      logMessage e ''tests failed; no test results to check'' ft)"
  by (simp add: checkResults_alt_def Let_def)

lemma New_missing_field:
  assumes "Session input \<noteq> None" "StackName input = []" "SubnetId input = [] \<or> VpcId input = []"
  shows "snd (New e input h) = h"
    "\<exists>input'. fst (New e input h) = Return (None,
        Some ((if SubnetId input = [] then ''SubnetId'' else ''VpcId'')
              @ '' is a required input field if StackName is not supplied''), input')"
  using assms by (auto simp: New_def Let_def)

text \<open>
  A run of \<open>Test\<close> in which the lambda answered and \<open>checkResults\<close> rejected the
  results (the marker \<open>Checked False\<close> is among the events of the run) returns
  the error \<open>tests failed or took too long\<close> at the \<open>return err\<close> that follows the
  retry loop: \<open>DeleteStack\<close> is not called, whatever \<open>RetainStack\<close> is,
  \<open>stackCreated\<close> stays set and \<open>Passed\<close> is left as it was.
\<close>

lemma Test_validation_failure_returns:
  assumes "Checked False \<in> set (added s (snd (Test e s)))"
  shows "fst (Test e s) = Return (Some ''tests failed or took too long'')
     \<and> list_all (\<lambda>ev. \<not> is_DeleteStack ev) (added s (snd (Test e s)))
     \<and> stackCreated (ftr (snd (Test e s)))
     \<and> Passed (ftr (snd (Test e s))) = Passed (ftr s)"
proof -
  obtain out s' where t: "Test e s = (out, s')" by (cases "Test e s")
  with assms have c: "Checked False \<in> set (added s s')" by simp
  have "out = Return (Some ''tests failed or took too long'')
     \<and> list_all (\<lambda>ev. \<not> is_DeleteStack ev) (added s s')
     \<and> stackCreated (ftr s') \<and> Passed (ftr s') = Passed (ftr s)"
    using t
  proof (cases rule: Test_cases)
    case (create_failed cre)
    with c creation_events[of cre] show ?thesis by (simp add: added_append)
  next
    case (invoke_failed cre inv d m)
    from invoke_failed(1) have a: "added s s' = cre @ inv" by (intro added_append) simp
    with c creation_events[OF invoke_failed(2)] have "Checked False \<in> set inv" by auto
    from invoke_phase_verdict[OF invoke_failed(4) this] have "m = ''tests failed or took too long''"
      by (simp add: verdict_def)
    with invoke_failed(5,6,7) creation_events[OF invoke_failed(2)]
      invoke_phase_events(2)[OF invoke_failed(4)]
    show ?thesis by (simp add: a)
  next
    case (retained cre inv d)
    from retained(2) have a: "added s s' = cre @ inv" by (intro added_append) simp
    with c creation_events[OF retained(3)] have "Checked False \<in> set inv" by auto
    from invoke_phase_verdict[OF retained(5) this] show ?thesis by (simp add: verdict_def)
  next
    case (deleted cre inv d dr)
    from deleted(2) have a: "added s s' = cre @ inv @ [Ev_DeleteStack (ft_StackName (ftr s'))]"
      by (intro added_append) simp
    with c creation_events[OF deleted(3)] have "Checked False \<in> set inv" by auto
    from invoke_phase_verdict[OF deleted(5) this] show ?thesis by (simp add: verdict_def)
  qed
  with t show ?thesis by simp
qed

text \<open>
  A run of \<open>Test\<close> reaches \<open>DeleteStack\<close> only after \<open>checkResults\<close> has passed in
  it, and only without \<open>RetainStack\<close>.
\<close>

lemma Test_deletes_only_after_pass:
  assumes "\<not> list_all (\<lambda>ev. \<not> is_DeleteStack ev) (added s (snd (Test e s)))"
  shows "Checked True \<in> set (added s (snd (Test e s)))" "\<not> ft_RetainStack (ftr s)"
proof -
  obtain out s' where t: "Test e s = (out, s')" by (cases "Test e s")
  with assms have d: "\<not> list_all (\<lambda>ev. \<not> is_DeleteStack ev) (added s s')" by simp
  have "Checked True \<in> set (added s s') \<and> \<not> ft_RetainStack (ftr s)"
    using t
  proof (cases rule: Test_cases)
    case (create_failed cre)
    with d creation_events[of cre] show ?thesis by (simp add: added_append)
  next
    case (invoke_failed cre inv d' m)
    from invoke_failed(1) have a: "added s s' = cre @ inv" by (intro added_append) simp
    with d creation_events[OF invoke_failed(2)] invoke_phase_events(2)[OF invoke_failed(4)]
    show ?thesis by simp
  next
    case (retained cre inv d')
    from retained(2) have a: "added s s' = cre @ inv" by (intro added_append) simp
    with d creation_events[OF retained(3)] invoke_phase_events(2)[OF retained(5)]
    show ?thesis by simp
  next
    case (deleted cre inv d' dr)
    from deleted(2) have a: "added s s' = cre @ inv @ [Ev_DeleteStack (ft_StackName (ftr s'))]"
      by (intro added_append) simp
    from invoke_phase_passed[OF deleted(5)] deleted(1) show ?thesis by (simp add: a)
  qed
  with t show "Checked True \<in> set (added s (snd (Test e s)))" "\<not> ft_RetainStack (ftr s)"
    by simp_all
qed

text \<open>
  A tester \<open>New\<close> builds with a \<open>StackName\<close> starts with \<open>stackCreated\<close> set, on
  that stack name, and \<open>New\<close> has called nothing.
\<close>

lemma New_resume_starts_created:
  assumes "StackName input \<noteq> []" "New_succeeds e input"
  shows "stackCreated (ftr (started e input))"
    "ft_StackName (ftr (started e input)) = StackName input"
    "hist (started e input) = []"
  using assms
  by (auto simp: New_succeeds_def started_def New_def New_finish_def Let_def split: if_splits)

text \<open>
  A run of \<open>Test\<close> that starts with \<open>stackCreated\<close> set calls neither
  \<open>CreateStack\<close> nor the file system nor the random generator: its events are calls
  of \<open>DescribeStacks\<close>, \<open>Invoke\<close> and \<open>DeleteStack\<close>, sleeps and markers. It leaves
  \<open>stackCreated\<close> set unless it ends with a call of \<open>DeleteStack\<close> that returned no
  error, which happens only without \<open>RetainStack\<close>.
\<close>

lemma created_Test_never_creates:
  assumes "stackCreated (ftr s)"
  shows "list_all resumed_call (added s (snd (Test e s)))"
    "stackCreated (ftr (snd (Test e s)))
     \<or> (\<not> ft_RetainStack (ftr s) \<and> fst (Test e s) = Return None
        \<and> last (added s (snd (Test e s))) = Ev_DeleteStack (ft_StackName (ftr (snd (Test e s)))))"
proof -
  obtain out s' where t: "Test e s = (out, s')" by (cases "Test e s")
  have "list_all resumed_call (added s s')
      \<and> (stackCreated (ftr s')
          \<or> (\<not> ft_RetainStack (ftr s) \<and> out = Return None
             \<and> last (added s s') = Ev_DeleteStack (ft_StackName (ftr s'))))"
    using t
  proof (cases rule: Test_cases)
    case (create_failed cre)
    with assms show ?thesis by simp
  next
    case (invoke_failed cre inv d m)
    with assms invoke_phase_events(1)[OF invoke_failed(4)] show ?thesis by (simp add: added_append)
  next
    case (retained cre inv d)
    with assms invoke_phase_events(1)[OF retained(5)] show ?thesis by (simp add: added_append)
  next
    case (deleted cre inv d dr)
    from deleted(2,4) assms
    have a: "added s s' = inv @ [Ev_DeleteStack (ft_StackName (ftr s'))]"
      by (intro added_append) simp
    from deleted(1,6,7) invoke_phase_events(1)[OF deleted(5)] show ?thesis
      by (auto simp: a resumed_call_def)
  qed
  with t show "list_all resumed_call (added s (snd (Test e s)))"
    "stackCreated (ftr (snd (Test e s)))
     \<or> (\<not> ft_RetainStack (ftr s) \<and> fst (Test e s) = Return None
        \<and> last (added s (snd (Test e s))) = Ev_DeleteStack (ft_StackName (ftr (snd (Test e s)))))"
    by simp_all
qed

section \<open>The claims\<close>

text \<open>
  Claim C1 against the code. The tester is resumed on an existing stack with
  \<open>RetainStack = false\<close>; the lambda is invoked and answers, and \<open>checkResults\<close>
  rejects the second result. \<open>Test\<close> returns the error at the \<open>return err\<close> that
  follows the retry loop: the events of the run end with the return of
  \<open>callLamda\<close>, \<open>DeleteStack\<close> is not called and \<open>stackCreated\<close> is still set, so
  the stack is left in place although it was not to be retained.
\<close>

theorem failed_validation_skips_teardown:
  "\<not> ft_RetainStack (ftr (started env_ok input_resume))
   \<and> fst (Test env_failing (started env_ok input_resume)) = Return (Some ''tests failed or took too long'')
   \<and> added (started env_ok input_resume) (snd (Test env_failing (started env_ok input_resume))) =
       [Ev_Sleep 40, Enter_callLamda, Ev_DescribeStacks ''egress-tester'', Ev_Sleep 20,
        Ev_Invoke ''probe'' ''payload'', Checked False,
        Leave_callLamda (Some ''tests failed or took too long'')]
   \<and> stackCreated (ftr (snd (Test env_failing (started env_ok input_resume))))"
proof -
  have a: "added (started env_ok input_resume) (snd (Test env_failing (started env_ok input_resume))) =
       [Ev_Sleep 40, Enter_callLamda, Ev_DescribeStacks ''egress-tester'', Ev_Sleep 20,
        Ev_Invoke ''probe'' ''payload'', Checked False,
        Leave_callLamda (Some ''tests failed or took too long'')]"
    using Test_failing(2)[of "started env_ok input_resume"] by (simp add: added_def)
  then have h: "Checked False \<in> set (added (started env_ok input_resume)
      (snd (Test env_failing (started env_ok input_resume))))"
    by simp
  from Test_validation_failure_returns[OF h] a show ?thesis by simp
qed

text \<open>
  Claim C2 against the code: \<open>checkResults\<close> of \<open>src/fliptest.go\<close> has no
  guard for the empty list; on it the loop runs no round and the function returns
  \<open>ok = true\<close> and a \<open>nil\<close> error, and logs nothing.
\<close>

theorem checkResults_empty_list_succeeds:
  "checkResults e [] ft = ((True, None), ft)"
  by simp

text \<open>
  Claim C3 against the code: every poll answers \<open>CREATE_IN_PROGRESS\<close> and
  \<open>maxtries\<close> is 3. \<open>watchStack\<close> polls three times, sleeping ten seconds after
  each poll, leaves the loop and returns the stack of the last poll with a \<open>nil\<close>
  error.
\<close>

theorem watchStack_timeout_returns_no_error:
  "fst (watchStack env_pending ''stack-id'' 3 s) = (Some (stack_with ''CREATE_IN_PROGRESS''), None)
   \<and> added s (snd (watchStack env_pending ''stack-id'' 3 s)) =
       [Ev_DescribeStacks ''stack-id'', Ev_Sleep 10, Ev_DescribeStacks ''stack-id'', Ev_Sleep 10,
        Ev_DescribeStacks ''stack-id'', Ev_Sleep 10]"
  using watchStack_pending[of s] by (simp add: prod_eq_iff)

text \<open>
  Claim C4 against the code: the first poll answers \<open>ROLLBACK_COMPLETE\<close>.
  \<open>watchStack\<close> returns the stack with a \<open>nil\<close> error, \<open>CreateStack\<close> returns
  \<open>nil\<close> and sets \<open>stackCreated\<close>, and \<open>Test\<close> goes on to call the lambda and
  returns \<open>nil\<close>.
\<close>

theorem CreateStack_accepts_rolled_back_stack:
  "\<not> stackCreated (ftr (started env_ok input_fresh))
   \<and> fst (CreateStack env_rollback (started env_ok input_fresh)) = Return None
   \<and> stackCreated (ftr (snd (CreateStack env_rollback (started env_ok input_fresh))))
   \<and> added (started env_ok input_fresh) (snd (CreateStack env_rollback (started env_ok input_fresh))) =
       [Ev_Intn,
        Ev_CreateStack \<lparr>TimeoutInMinutes = 15, cs_StackName = ''ISS-GR-egress-tester-00714632'',
           TemplateBody = ''template'', Capabilities = [''CAPABILITY_IAM'', ''CAPABILITY_NAMED_IAM''],
           Parameters = [(''SubnetId'', ''subnet-d3297188''), (''VpcId'', ''vpc-c8a6c3ae'')]\<rparr>,
        Ev_Sleep 5, Ev_DescribeStacks ''stack-id'']
   \<and> fst (Test env_rollback (started env_ok input_fresh)) = Return None"
proof -
  have c: "returns_at ''ROLLBACK_COMPLETE''" by (simp add: returns_at_def)
  have t: "stackTemplateFilename (ftr (started env_ok input_fresh)) = []" by simp
  have n: "\<not> stackCreated (ftr (started env_ok input_fresh))" by simp
  from CreateStack_ready[OF answers_ready_fixtures(2) c t]
    Test_fresh_ready(1)[OF answers_ready_fixtures(2) c t n]
  show ?thesis by simp
qed



text \<open>
  Claim C6 against the code: on the fresh path, with an empty \<open>SubnetId\<close> and
  no session, \<open>New\<close> does not reach the check of \<open>SubnetId\<close>: it panics at
  \<open>fliptester.sess = session.New()\<close>.
\<close>

theorem New_missing_subnet_without_session:
  "StackName (input_fresh\<lparr>Session := None, SubnetId := []\<rparr>) = []
   \<and> SubnetId (input_fresh\<lparr>Session := None, SubnetId := []\<rparr>) = []
   \<and> New e (input_fresh\<lparr>Session := None, SubnetId := []\<rparr>) h = (Panic, h @ [Ev_session_New])"
  by (simp add: New_def input_fresh_def input_resume_def)

text \<open>
  Claim C7 against the code. A tester is built by \<open>New\<close> with a \<open>StackName\<close>
  and \<open>RetainStack = false\<close>. Its first \<open>Test\<close> passes and deletes the stack,
  which resets \<open>stackCreated\<close>. Its second \<open>Test\<close> calls \<open>CreateStack\<close>, with the
  empty prefix, subnet and VPC the resumed tester holds.
\<close>

theorem second_Test_of_resumed_tester_creates:
  "StackName input_resume \<noteq> [] \<and> New_succeeds env_ok input_resume
   \<and> fst (Test env_ok (started env_ok input_resume)) = Return None
   \<and> added (snd (Test env_ok (started env_ok input_resume)))
        (snd (Test env_ok (snd (Test env_ok (started env_ok input_resume))))) =
       [Ev_Intn,
        Ev_CreateStack \<lparr>TimeoutInMinutes = 15, cs_StackName = ''00714632'',
           TemplateBody = ''template'', Capabilities = [''CAPABILITY_IAM'', ''CAPABILITY_NAMED_IAM''],
           Parameters = [(''SubnetId'', []), (''VpcId'', [])]\<rparr>,
        Ev_Sleep 5, Ev_DescribeStacks ''stack-id'',
        Ev_Sleep 40, Enter_callLamda, Ev_DescribeStacks ''egress-tester'',
        Ev_Sleep 20, Ev_Invoke ''probe'' ''payload'', Checked True,
        Leave_callLamda None, Ev_DeleteStack ''egress-tester'']"
proof -
  let ?s0 = "started env_ok input_resume"
  let ?s1 = "snd (Test env_ok ?s0)"
  note r = Test_created_ready[OF answers_ready_fixtures(1), of ?s0]
  have f: "\<not> stackCreated (ftr ?s1)" "stackTemplateFilename (ftr ?s1) = []" "stackPrefix (ftr ?s1) = []"
    "subnetId (ftr ?s1) = []" "vpcId (ftr ?s1) = []" "initialSleepTimeSeconds (ftr ?s1) = 40"
    "postEventSleepTimeSeconds (ftr ?s1) = 20" "\<not> ft_RetainStack (ftr ?s1)"
    using r(3,4) by (simp_all add: frame_def)
  have c: "returns_at ''CREATE_COMPLETE''" by (simp add: returns_at_def)
  have sn: "StackName input_resume \<noteq> []" by (simp add: input_resume_def)
  from Test_fresh_ready(2)[OF answers_ready_fixtures(1) c f(2) f(1)] f r(1) New_succeeds_fixtures(1) sn
  show ?thesis by simp
qed

text \<open>
  Claim C8. In every run of \<open>Test\<close> in which \<open>checkResults\<close> passed (the
  marker \<open>Checked True\<close> is among the events of the run): with \<open>RetainStack\<close> set
  no event of the run is a call of \<open>DeleteStack\<close>; otherwise the run calls
  \<open>DeleteStack\<close> once, as its last event, on the stack name of the tester,
  \<open>Test\<close> returns what that call returned, and \<open>stackCreated\<close> is reset exactly
  when the call returned no error.
\<close>

theorem Test_pass_teardown:
  assumes "Checked True \<in> set (added s (snd (Test e s)))"
  shows "(let s' = snd (Test e s); evs = added s s' in
          if ft_RetainStack (ftr s)
          then list_all (\<lambda>ev. \<not> is_DeleteStack ev) evs
          else length (filter is_DeleteStack evs) = 1
               \<and> last evs = Ev_DeleteStack (ft_StackName (ftr s'))
               \<and> fst (Test e s) = Return (cf_DeleteStack e (butlast (hist s')) (ft_StackName (ftr s')))
               \<and> stackCreated (ftr s')
                  = (cf_DeleteStack e (butlast (hist s')) (ft_StackName (ftr s')) \<noteq> None))"
proof -
  obtain out s' where t: "Test e s = (out, s')" by (cases "Test e s")
  with assms have c: "Checked True \<in> set (added s s')" by simp
  have "if ft_RetainStack (ftr s)
          then list_all (\<lambda>ev. \<not> is_DeleteStack ev) (added s s')
          else length (filter is_DeleteStack (added s s')) = 1
               \<and> last (added s s') = Ev_DeleteStack (ft_StackName (ftr s'))
               \<and> out = Return (cf_DeleteStack e (butlast (hist s')) (ft_StackName (ftr s')))
               \<and> stackCreated (ftr s')
                  = (cf_DeleteStack e (butlast (hist s')) (ft_StackName (ftr s')) \<noteq> None)"
    using t
  proof (cases rule: Test_cases)
    case (create_failed cre)
    with c creation_events[of cre] show ?thesis by (simp add: added_append)
  next
    case (invoke_failed cre inv d m)
    from invoke_failed(1) have a: "added s s' = cre @ inv" by (intro added_append) simp
    with c creation_events[OF invoke_failed(2)] have "Checked True \<in> set inv" by auto
    from invoke_phase_verdict[OF invoke_failed(4) this] show ?thesis by (simp add: verdict_def)
  next
    case (retained cre inv d)
    from retained(2) have a: "added s s' = cre @ inv" by (intro added_append) simp
    from creation_events[OF retained(3)] invoke_phase_events(2)[OF retained(5)] retained(1)
    show ?thesis by (simp add: a)
  next
    case (deleted cre inv d dr)
    from deleted(2) have a: "added s s' = cre @ inv @ [Ev_DeleteStack (ft_StackName (ftr s'))]"
      by (intro added_append) simp
    have b: "butlast (hist s') = hist s @ cre @ inv"
      using deleted(2) by (simp add: butlast_append)
    have f: "filter is_DeleteStack cre = []" "filter is_DeleteStack inv = []"
      using creation_events[OF deleted(3)] invoke_phase_events(2)[OF deleted(5)]
      by (simp_all add: filter_empty_conv list_all_iff)
    from deleted(1,6,7,9) f show ?thesis
      by (simp add: a b is_DeleteStack_def)
  qed
  with t show ?thesis by (simp add: Let_def)
qed

text \<open>
  Claim C8 at two passing runs, one without and one with \<open>RetainStack\<close>.
\<close>

theorem Test_pass_teardown_witness:
  "Checked True \<in> set (added (started env_ok input_resume) (snd (Test env_ok (started env_ok input_resume))))
   \<and> length (filter is_DeleteStack
        (added (started env_ok input_resume) (snd (Test env_ok (started env_ok input_resume))))) = 1
   \<and> \<not> stackCreated (ftr (snd (Test env_ok (started env_ok input_resume))))
   \<and> Checked True \<in> set (added (started env_ok input_retain) (snd (Test env_ok (started env_ok input_retain))))
   \<and> list_all (\<lambda>ev. \<not> is_DeleteStack ev)
        (added (started env_ok input_retain) (snd (Test env_ok (started env_ok input_retain))))"
proof -
  note r = Test_created_ready[OF answers_ready_fixtures(1)]
  have h1: "Checked True \<in> set (added (started env_ok input_resume) (snd (Test env_ok (started env_ok input_resume))))"
    using r(2)[of "started env_ok input_resume"] by simp
  have h2: "Checked True \<in> set (added (started env_ok input_retain) (snd (Test env_ok (started env_ok input_retain))))"
    using r(2)[of "started env_ok input_retain"] by simp
  have d: "cf_DeleteStack env_ok = (\<lambda>h n. None)" by (simp add: env_ok_def)
  from Test_pass_teardown[OF h1] Test_pass_teardown[OF h2] h1 h2 show ?thesis
    by (simp add: Let_def d)
qed

text \<open>
  Claim C9. A result violates the policy when it is not successful or took
  longer than \<open>maxTime\<close>. If no result of \<open>pre\<close> violates it and \<open>r\<close> does, then
  on \<open>pre @ r # post\<close> the validator fails with the message that cites the URL of
  \<open>r\<close> and logs that message, whatever \<open>post\<close> is: nothing after \<open>r\<close> is
  inspected. If no result of the list violates the policy, it succeeds and logs
  nothing.
\<close>

theorem checkResults_first_violation:
  "((\<forall>x \<in> set pre. \<not> violates x) \<and> violates r \<longrightarrow>
      checkResults e (pre @ r # post) ft = ((False, Some (cite r)), logMessage e (cite r) ft))
   \<and> ((\<forall>x \<in> set rs. \<not> violates x) \<longrightarrow> checkResults e rs ft = ((True, None), ft))"
  using checkResults_pass checkResults_fail by blast

text \<open>
  Claim C9 at a list whose second result is too slow and whose third one
  failed, and at a list of one good result.
\<close>

theorem checkResults_first_violation_witness:
  "\<not> violates good_result \<and> violates slow_result
   \<and> checkResults env_ok ([good_result] @ slow_result # [failed_result]) (FlipTester_literal None)
       = ((False, Some ''test took too long: https://gopkg.in''),
          logMessage env_ok ''test took too long: https://gopkg.in'' (FlipTester_literal None))
   \<and> checkResults env_ok [good_result] (FlipTester_literal None) = ((True, None), FlipTester_literal None)"
proof -
  have v: "\<not> violates good_result" "violates slow_result"
    by (simp_all add: violates_def good_result_def slow_result_def maxTime_def)
  have c: "cite slow_result = ''test took too long: https://gopkg.in''"
    by (simp add: cite_def slow_result_def)
  from checkResults_first_violation[of "[good_result]" slow_result env_ok "[failed_result]"
      "FlipTester_literal None" "[good_result]"] v c
  show ?thesis by simp
qed

text \<open>
  Claim C10. With no session in the input, \<open>New\<close> calls \<open>session.New\<close> and
  panics on the store through the \<open>nil\<close> result \<open>fliptester\<close>: no tester is
  returned. \<open>New\<close> returns normally exactly when a session is supplied.
\<close>

theorem New_nil_session_panics:
  "(Session input = None \<longrightarrow> New e input h = (Panic, h @ [Ev_session_New]))
   \<and> (fst (New e input h) \<noteq> Panic \<longrightarrow> Session input \<noteq> None)
   \<and> (Session input \<noteq> None \<longrightarrow> fst (New e input h) \<noteq> Panic)"
  by (simp add: New_def Let_def)

text \<open>
  Claim C10 at an input without a session and at one with a session.
\<close>

theorem New_nil_session_panics_witness:
  "Session (input_fresh\<lparr>Session := None\<rparr>) = None
   \<and> New env_ok (input_fresh\<lparr>Session := None\<rparr>) [] = (Panic, [Ev_session_New])
   \<and> Session input_fresh \<noteq> None \<and> fst (New env_ok input_fresh []) \<noteq> Panic"
  using New_nil_session_panics[of "input_fresh\<lparr>Session := None\<rparr>" env_ok "[]"]
    New_nil_session_panics[of input_fresh env_ok "[]"]
  by (simp add: input_fresh_def input_resume_def)

end
